theory Spec2Isabelle
  imports Main "HOL-Library.Word"
begin

section \<open>The receive path of the tunnel (receive.c)\<close>

text \<open>
  A shallow embedding of \<^verbatim>\<open>src/receive.c\<close>: the outer-frame parser
  \<^verbatim>\<open>skb_data_offset\<close>, the handshake handler \<^verbatim>\<open>receive_handshake_packet\<close>, the
  worker loop \<^verbatim>\<open>packet_process_queued_handshake_packets\<close>, the decryption
  completion callback \<^verbatim>\<open>receive_data_packet\<close> and the entry point
  \<^verbatim>\<open>packet_receive\<close>.

  The device is a record that is passed through every function and returned
  updated. Every call that leaves the file (cookie checker, noise handshake,
  timers, send path, routing table, network stack, buffer release) appends one
  event to the field \<open>trace\<close>, in program order, so that "is called", "is
  called once" and "is never called" are statements about that list. What such
  a call answers is not decided in this file: the answers are the fields of
  the record \<open>env\<close>, over which every theorem is universally quantified.

  The model is sequential: one call runs from entry to return with no other CPU
  touching the device in between. Sizes and offsets are natural numbers: the UDP
  header is taken to lie at or behind \<^verbatim>\<open>skb->data\<close>, so that the pointer difference
  in \<^verbatim>\<open>skb_data_offset\<close> is not negative and none of its \<^verbatim>\<open>size_t\<close> sums wraps. The
  counters of the device are machine words and wrap.
\<close>

subsection \<open>Data\<close>

type_synonym u32 = "32 word"
type_synonym u64 = "64 word"

text \<open>A non-NULL \<^verbatim>\<open>struct wireguard_peer *\<close>; a pointer that may be NULL is a \<open>peer option\<close>.\<close>
type_synonym peer = nat

text \<open>The contents of a \<^verbatim>\<open>struct sockaddr_storage\<close>.\<close>
type_synonym sockaddr = nat

datatype message_type =
    MESSAGE_INVALID
  | MESSAGE_HANDSHAKE_INITIATION
  | MESSAGE_HANDSHAKE_RESPONSE
  | MESSAGE_HANDSHAKE_COOKIE
  | MESSAGE_DATA

datatype cookie_mac_state =
    INVALID_MAC
  | VALID_MAC_BUT_NO_COOKIE
  | VALID_MAC_WITH_COOKIE

datatype ether_proto = ETH_P_UNSET | ETH_P_IP | ETH_P_IPV6

datatype checksum = CHECKSUM_NONE | CHECKSUM_UNNECESSARY

datatype errno = EINVAL


text \<open>
  The part of a \<^verbatim>\<open>struct sk_buff\<close> that receive.c reads or writes:
  \<open>skb_len\<close> is \<^verbatim>\<open>skb->len\<close>, \<open>ip_version\<close> is what \<^verbatim>\<open>ip_hdr(skb)->version\<close>
  reads, \<open>udp_hdr_offset\<close> is \<^verbatim>\<open>(u8 *)udp_hdr(skb) - skb->data\<close>, \<open>udp_len\<close> is
  \<^verbatim>\<open>ntohs(udp_hdr(skb)->len)\<close>. \<open>skb_id\<close> tells one buffer from another.
\<close>

record sk_buff =
  skb_id :: nat
  skb_len :: nat
  ip_version :: nat
  udp_hdr_offset :: nat
  udp_len :: nat
  skb_dev_set :: bool
  ip_summed :: checksum
  protocol :: ether_proto

datatype log_msg =
    LOG_NO_UDP_FIELDS
  | LOG_UDP_TOO_SMALL
  | LOG_UDP_LYING
  | LOG_CANNOT_PULL_HEADER
  | LOG_RECEIVING_COOKIE
  | LOG_INVALID_MAC
  | LOG_INVALID_INITIATION
  | LOG_RECEIVING_INITIATION
  | LOG_INVALID_RESPONSE
  | LOG_RECEIVING_RESPONSE
  | LOG_WRONG_TYPE_IN_QUEUE
  | LOG_KEEPALIVE
  | LOG_MISSING_IP_HEADER
  | LOG_MISSING_IP_VERSION
  | LOG_MISSING_IPV6_HEADER
  | LOG_NEITHER_V4_NOR_V6
  | LOG_UNALLOWED_SRC
  | LOG_NETIF_RX_FAILED
  | LOG_TOO_MANY_HANDSHAKES
  | LOG_LINEARIZE_FAILED
  | LOG_INVALID_PACKET

text \<open>
  One event per call out of receive.c, and \<open>E_set_last_rx\<close> for the assignment
  \<^verbatim>\<open>dev->last_rx = jiffies\<close>. A payload pointer \<^verbatim>\<open>data = skb->data + offset\<close> is the
  pair of the buffer and the offset.
\<close>

datatype event =
    E_log log_msg
  | E_cookie_message_consume sk_buff nat
  | E_cookie_validate_packet sk_buff nat nat bool
  | E_packet_send_handshake_cookie sk_buff nat nat u32
  | E_noise_handshake_consume_initiation sk_buff nat
  | E_noise_handshake_consume_response sk_buff nat
  | E_noise_handshake_begin_session peer
  | E_socket_set_peer_addr peer sockaddr
  | E_packet_send_handshake_response peer
  | E_timers_ephemeral_key_created peer
  | E_timers_handshake_complete peer
  | E_packet_send_queue peer
  | E_timers_any_authorized_packet_received peer
  | E_timers_data_received peer
  | E_peer_put "peer option"
  | E_dev_kfree_skb sk_buff
  | E_routing_table_lookup_src sk_buff
  | E_set_last_rx
  | E_netif_rx sk_buff
  | E_queue_work
  | E_packet_consume_data sk_buff nat

text \<open>
  The device \<^verbatim>\<open>struct wireguard_device\<close> with the state receive.c touches: the
  handshake queue, \<^verbatim>\<open>dev->stats\<close>, the per-CPU \<^verbatim>\<open>tstats\<close> (summed over the CPUs),
  \<^verbatim>\<open>peer->rx_bytes\<close> and the reference count of every peer.
\<close>

record wg_device =
  incoming_handshakes :: "sk_buff list"
  rx_errors :: u64
  rx_length_errors :: u64
  rx_frame_errors :: u64
  rx_dropped :: u64
  tstats_rx_bytes :: u64
  tstats_rx_packets :: u64
  peer_rx_bytes :: "peer \<Rightarrow> u64"
  refcount :: "peer \<Rightarrow> int"
  trace :: "event list"

text \<open>
  What the collaborators answer. \<open>o_pskb_may_pull skb n\<close> is whether
  \<^verbatim>\<open>pskb_may_pull(skb, n)\<close> succeeds; \<open>o_message_type skb offset len\<close> is
  \<^verbatim>\<open>message_determine_type(skb->data + offset, len)\<close>; \<open>o_sender_index skb offset\<close> is the
  field \<^verbatim>\<open>sender_index\<close> of the message at that offset; \<open>o_mac_state\<close> is the verdict
  of \<^verbatim>\<open>cookie_validate_packet\<close>; \<open>o_consume_initiation\<close> and \<open>o_consume_response\<close> are
  the peers the noise consumers return (None is NULL); \<open>o_addr_from_skb\<close> is
  Some address when \<^verbatim>\<open>socket_addr_from_skb\<close> returns 0; \<open>o_linearize\<close> is the linear
  buffer when \<^verbatim>\<open>skb_linearize\<close> succeeds; \<open>o_lookup_src\<close> is the peer the routing
  table returns for the inner source address; \<open>o_netif_rx\<close> is whether
  \<^verbatim>\<open>netif_rx\<close> returns \<^verbatim>\<open>NET_RX_SUCCESS\<close>.
\<close>

text \<open>
  \<^verbatim>\<open>BUG()\<close> stops the thread that runs into it: a function that can reach it returns
  \<open>Inl (BUG s)\<close> with the device \<open>s\<close> as it was at that moment, and \<open>Inr s\<close> when it
  returns normally.
\<close>

datatype fault = BUG wg_device

fun device_of :: "fault + wg_device \<Rightarrow> wg_device" where
  "device_of (Inl (BUG s)) = s"
| "device_of (Inr s) = s"

record env =
  o_pskb_may_pull :: "sk_buff \<Rightarrow> nat \<Rightarrow> bool"
  o_message_type :: "sk_buff \<Rightarrow> nat \<Rightarrow> nat \<Rightarrow> message_type"
  o_sender_index :: "sk_buff \<Rightarrow> nat \<Rightarrow> u32"
  o_mac_state :: "sk_buff \<Rightarrow> nat \<Rightarrow> nat \<Rightarrow> bool \<Rightarrow> cookie_mac_state"
  o_consume_initiation :: "sk_buff \<Rightarrow> nat \<Rightarrow> peer option"
  o_consume_response :: "sk_buff \<Rightarrow> nat \<Rightarrow> peer option"
  o_begin_session :: "peer \<Rightarrow> bool"
  o_addr_from_skb :: "sk_buff \<Rightarrow> sockaddr option"
  o_linearize :: "sk_buff \<Rightarrow> sk_buff option"
  o_lookup_src :: "sk_buff \<Rightarrow> peer option"
  o_netif_rx :: "sk_buff \<Rightarrow> bool"

subsection \<open>Constants\<close>

text \<open>\<^verbatim>\<open>sizeof(struct iphdr)\<close>, \<^verbatim>\<open>sizeof(struct ipv6hdr)\<close> and \<^verbatim>\<open>sizeof(struct udphdr)\<close> of the kernel.\<close>

definition sizeof_iphdr :: nat where
  "sizeof_iphdr = 20"

definition sizeof_ipv6hdr :: nat where
  "sizeof_ipv6hdr = 40"

definition sizeof_udphdr :: nat where
  "sizeof_udphdr = 8"

text \<open>
  Modelled from the spec: \<^verbatim>\<open>struct message_header\<close> is declared in messages.h, which
  is not among the sources; the spec gives the message header as the first 4 bytes
  of the tunnel payload.
\<close>

definition sizeof_message_header :: nat where
  "sizeof_message_header = 4"

text \<open>
  Modelled from the spec: \<^verbatim>\<open>struct message_handshake_initiation\<close> and
  \<^verbatim>\<open>struct message_handshake_response\<close> are declared in messages.h; the spec gives
  their total sizes as 148 and 92 bytes.
\<close>

definition sizeof_message_handshake_initiation :: nat where
  "sizeof_message_handshake_initiation = 148"

definition sizeof_message_handshake_response :: nat where
  "sizeof_message_handshake_response = 92"

text \<open>
  Modelled from the spec: the limits \<^verbatim>\<open>MAX_QUEUED_HANDSHAKES\<close> and
  \<^verbatim>\<open>MAX_BURST_HANDSHAKES\<close> are declared in a header that is not among the sources;
  the spec gives 4096 and 8.
\<close>

definition MAX_QUEUED_HANDSHAKES :: nat where
  "MAX_QUEUED_HANDSHAKES = 4096"

definition MAX_BURST_HANDSHAKES :: nat where
  "MAX_BURST_HANDSHAKES = 8"

subsection \<open>Calls out of the file\<close>

definition emit :: "event \<Rightarrow> wg_device \<Rightarrow> wg_device" where
  "emit e s = s\<lparr>trace := trace s @ [e]\<rparr>"

text \<open>\<^verbatim>\<open>net_dbg_ratelimited\<close> and \<^verbatim>\<open>net_err_ratelimited\<close>.\<close>

definition net_dbg_ratelimited :: "log_msg \<Rightarrow> wg_device \<Rightarrow> wg_device" where
  "net_dbg_ratelimited m s = emit (E_log m) s"

text \<open>
  Modelled from the spec: peer.c is not among the sources. \<^verbatim>\<open>peer_put\<close> releases one
  reference of the peer it is given; on NULL, which line 232 can pass to it, it
  changes no count. Every peer handle that a lookup or a consumer returns carries
  one reference, taken by \<open>take_ref\<close>.
\<close>

definition peer_put :: "peer option \<Rightarrow> wg_device \<Rightarrow> wg_device" where
  "peer_put p s =
     (case p of
        None \<Rightarrow> emit (E_peer_put None) s
      | Some q \<Rightarrow> emit (E_peer_put (Some q)) (s\<lparr>refcount := (refcount s)(q := refcount s q - 1)\<rparr>))"

definition take_ref :: "peer option \<Rightarrow> wg_device \<Rightarrow> wg_device" where
  "take_ref p s =
     (case p of
        None \<Rightarrow> s
      | Some q \<Rightarrow> s\<lparr>refcount := (refcount s)(q := refcount s q + 1)\<rparr>)"

definition dev_kfree_skb :: "sk_buff \<Rightarrow> wg_device \<Rightarrow> wg_device" where
  "dev_kfree_skb skb s = emit (E_dev_kfree_skb skb) s"

definition socket_set_peer_addr :: "peer \<Rightarrow> sockaddr \<Rightarrow> wg_device \<Rightarrow> wg_device" where
  "socket_set_peer_addr p a s = emit (E_socket_set_peer_addr p a) s"

definition cookie_message_consume :: "sk_buff \<Rightarrow> nat \<Rightarrow> wg_device \<Rightarrow> wg_device" where
  "cookie_message_consume skb data s = emit (E_cookie_message_consume skb data) s"

definition cookie_validate_packet ::
  "env \<Rightarrow> sk_buff \<Rightarrow> nat \<Rightarrow> nat \<Rightarrow> bool \<Rightarrow> wg_device \<Rightarrow> cookie_mac_state \<times> wg_device" where
  "cookie_validate_packet env skb data len under_load s =
     (o_mac_state env skb data len under_load,
      emit (E_cookie_validate_packet skb data len under_load) s)"

definition packet_send_handshake_cookie ::
  "sk_buff \<Rightarrow> nat \<Rightarrow> nat \<Rightarrow> u32 \<Rightarrow> wg_device \<Rightarrow> wg_device" where
  "packet_send_handshake_cookie skb data message_len sender_index s =
     emit (E_packet_send_handshake_cookie skb data message_len sender_index) s"

definition noise_handshake_consume_initiation ::
  "env \<Rightarrow> sk_buff \<Rightarrow> nat \<Rightarrow> wg_device \<Rightarrow> peer option \<times> wg_device" where
  "noise_handshake_consume_initiation env skb data s =
     (o_consume_initiation env skb data,
      take_ref (o_consume_initiation env skb data)
        (emit (E_noise_handshake_consume_initiation skb data) s))"

definition noise_handshake_consume_response ::
  "env \<Rightarrow> sk_buff \<Rightarrow> nat \<Rightarrow> wg_device \<Rightarrow> peer option \<times> wg_device" where
  "noise_handshake_consume_response env skb data s =
     (o_consume_response env skb data,
      take_ref (o_consume_response env skb data)
        (emit (E_noise_handshake_consume_response skb data) s))"

definition noise_handshake_begin_session :: "env \<Rightarrow> peer \<Rightarrow> wg_device \<Rightarrow> bool \<times> wg_device" where
  "noise_handshake_begin_session env p s =
     (o_begin_session env p, emit (E_noise_handshake_begin_session p) s)"

definition packet_send_handshake_response :: "peer \<Rightarrow> wg_device \<Rightarrow> wg_device" where
  "packet_send_handshake_response p s = emit (E_packet_send_handshake_response p) s"

definition timers_ephemeral_key_created :: "peer \<Rightarrow> wg_device \<Rightarrow> wg_device" where
  "timers_ephemeral_key_created p s = emit (E_timers_ephemeral_key_created p) s"

definition timers_handshake_complete :: "peer \<Rightarrow> wg_device \<Rightarrow> wg_device" where
  "timers_handshake_complete p s = emit (E_timers_handshake_complete p) s"

definition packet_send_queue :: "peer \<Rightarrow> wg_device \<Rightarrow> wg_device" where
  "packet_send_queue p s = emit (E_packet_send_queue p) s"

definition timers_any_authorized_packet_received :: "peer \<Rightarrow> wg_device \<Rightarrow> wg_device" where
  "timers_any_authorized_packet_received p s = emit (E_timers_any_authorized_packet_received p) s"

definition timers_data_received :: "peer \<Rightarrow> wg_device \<Rightarrow> wg_device" where
  "timers_data_received p s = emit (E_timers_data_received p) s"

definition routing_table_lookup_src ::
  "env \<Rightarrow> sk_buff \<Rightarrow> wg_device \<Rightarrow> peer option \<times> wg_device" where
  "routing_table_lookup_src env skb s =
     (o_lookup_src env skb,
      take_ref (o_lookup_src env skb) (emit (E_routing_table_lookup_src skb) s))"

definition netif_rx :: "env \<Rightarrow> sk_buff \<Rightarrow> wg_device \<Rightarrow> bool \<times> wg_device" where
  "netif_rx env skb s = (o_netif_rx env skb, emit (E_netif_rx skb) s)"

definition queue_work :: "wg_device \<Rightarrow> wg_device" where
  "queue_work s = emit E_queue_work s"

definition packet_consume_data :: "sk_buff \<Rightarrow> nat \<Rightarrow> wg_device \<Rightarrow> wg_device" where
  "packet_consume_data skb offset s = emit (E_packet_consume_data skb offset) s"

definition skb_queue_len :: "sk_buff list \<Rightarrow> nat" where
  "skb_queue_len q = length q"

definition skb_queue_tail :: "sk_buff \<Rightarrow> wg_device \<Rightarrow> wg_device" where
  "skb_queue_tail skb s = s\<lparr>incoming_handshakes := incoming_handshakes s @ [skb]\<rparr>"

subsection \<open>rx_stats and update_latest_addr\<close>

definition rx_stats :: "peer \<Rightarrow> nat \<Rightarrow> wg_device \<Rightarrow> wg_device" where
  "rx_stats p len s =
     s\<lparr>tstats_rx_bytes := tstats_rx_bytes s + of_nat len,
       tstats_rx_packets := tstats_rx_packets s + 1,
       peer_rx_bytes := (peer_rx_bytes s)(p := peer_rx_bytes s p + of_nat len)\<rparr>"

definition update_latest_addr :: "env \<Rightarrow> peer \<Rightarrow> sk_buff \<Rightarrow> wg_device \<Rightarrow> wg_device" where
  "update_latest_addr env p skb s =
     (case o_addr_from_skb env skb of
        Some addr \<Rightarrow> socket_set_peer_addr p addr s
      | None \<Rightarrow> s)"

subsection \<open>skb_data_offset: the outer-frame parser\<close>

text \<open>
  The result is \<open>Inl EINVAL\<close> for the return value \<^verbatim>\<open>-EINVAL\<close> and
  \<open>Inr (data_offset, data_len)\<close> for 0 with the two out-parameters. The checks stand
  in the order of the source; at the two subtractions the check before has made
  the left side the larger one.
\<close>

definition skb_data_offset ::
  "env \<Rightarrow> sk_buff \<Rightarrow> wg_device \<Rightarrow> (errno + nat \<times> nat) \<times> wg_device" where
  "skb_data_offset env skb s =
     (if skb_len skb < sizeof_iphdr then (Inl EINVAL, s)
      else if ip_version skb \<noteq> 4 \<and> ip_version skb \<noteq> 6 then (Inl EINVAL, s)
      else if ip_version skb = 6 \<and> skb_len skb < sizeof_ipv6hdr then (Inl EINVAL, s)
      else
        let data_offset = udp_hdr_offset skb in
        if data_offset + sizeof_udphdr > skb_len skb
        then (Inl EINVAL, net_dbg_ratelimited LOG_NO_UDP_FIELDS s)
        else
          let data_len = udp_len skb in
          if data_len < sizeof_udphdr
          then (Inl EINVAL, net_dbg_ratelimited LOG_UDP_TOO_SMALL s)
          else if data_len > skb_len skb - data_offset
          then (Inl EINVAL, net_dbg_ratelimited LOG_UDP_LYING s)
          else
            let data_len = data_len - sizeof_udphdr;
                data_offset = udp_hdr_offset skb + sizeof_udphdr in
            if \<not> o_pskb_may_pull env skb (data_offset + sizeof_message_header)
            then (Inl EINVAL, net_dbg_ratelimited LOG_CANNOT_PULL_HEADER s)
            else (Inr (data_offset, data_len), s))"

subsection \<open>receive_handshake_packet\<close>

text \<open>
  Lines 98 to 105: \<open>Some b\<close> is the assignment \<^verbatim>\<open>packet_needs_cookie = b\<close>, \<open>None\<close> is the
  third branch, which logs and returns.
\<close>

definition packet_needs_cookie :: "bool \<Rightarrow> cookie_mac_state \<Rightarrow> bool option" where
  "packet_needs_cookie under_load mac_state =
     (if (under_load \<and> mac_state = VALID_MAC_WITH_COOKIE) \<or>
         (\<not> under_load \<and> mac_state = VALID_MAC_BUT_NO_COOKIE) then Some False
      else if under_load \<and> mac_state = VALID_MAC_BUT_NO_COOKIE then Some True
      else None)"

text \<open>Lines 147 to 152, after the switch; the peer is not NULL there.\<close>

definition handshake_accepted :: "env \<Rightarrow> peer \<Rightarrow> nat \<Rightarrow> sk_buff \<Rightarrow> wg_device \<Rightarrow> wg_device" where
  "handshake_accepted env p len skb s =
     peer_put (Some p)
       (update_latest_addr env p skb
         (timers_any_authorized_packet_received p
           (rx_stats p len s)))"

text \<open>
  Lines 107 to 145: the switch on the message type. The default case logs an error
  and calls \<^verbatim>\<open>BUG()\<close>.
\<close>

definition handshake_switch ::
  "env \<Rightarrow> message_type \<Rightarrow> bool \<Rightarrow> sk_buff \<Rightarrow> nat \<Rightarrow> nat \<Rightarrow> wg_device \<Rightarrow> fault + wg_device" where
  "handshake_switch env mt needs_cookie skb data len s =
     (case mt of
        MESSAGE_HANDSHAKE_INITIATION \<Rightarrow>
          if needs_cookie
          then Inr (packet_send_handshake_cookie skb data sizeof_message_handshake_initiation
                      (o_sender_index env skb data) s)
          else
            (case noise_handshake_consume_initiation env skb data s of
               (None, s1) \<Rightarrow> Inr (net_dbg_ratelimited LOG_INVALID_INITIATION s1)
             | (Some p, s1) \<Rightarrow>
                 Inr (handshake_accepted env p len skb
                        (packet_send_handshake_response p
                          (update_latest_addr env p skb
                            (net_dbg_ratelimited LOG_RECEIVING_INITIATION s1)))))
      | MESSAGE_HANDSHAKE_RESPONSE \<Rightarrow>
          if needs_cookie
          then Inr (packet_send_handshake_cookie skb data sizeof_message_handshake_response
                      (o_sender_index env skb data) s)
          else
            (case noise_handshake_consume_response env skb data s of
               (None, s1) \<Rightarrow> Inr (net_dbg_ratelimited LOG_INVALID_RESPONSE s1)
             | (Some p, s1) \<Rightarrow>
                 (case noise_handshake_begin_session env p
                         (net_dbg_ratelimited LOG_RECEIVING_RESPONSE s1) of
                    (True, s2) \<Rightarrow>
                      Inr (handshake_accepted env p len skb
                             (packet_send_queue p
                               (timers_handshake_complete p
                                 (timers_ephemeral_key_created p s2))))
                  | (False, s2) \<Rightarrow> Inr (handshake_accepted env p len skb s2)))
      | _ \<Rightarrow> Inl (BUG (net_dbg_ratelimited LOG_WRONG_TYPE_IN_QUEUE s)))"

definition receive_handshake_packet ::
  "env \<Rightarrow> sk_buff \<Rightarrow> nat \<Rightarrow> nat \<Rightarrow> wg_device \<Rightarrow> fault + wg_device" where
  "receive_handshake_packet env skb data len s =
     (let mt = o_message_type env skb data len in
      if mt = MESSAGE_HANDSHAKE_COOKIE
      then Inr (cookie_message_consume skb data (net_dbg_ratelimited LOG_RECEIVING_COOKIE s))
      else
        let under_load = (skb_queue_len (incoming_handshakes s) \<ge> MAX_QUEUED_HANDSHAKES div 2) in
        (case cookie_validate_packet env skb data len under_load s of
           (mac_state, s1) \<Rightarrow>
             (case packet_needs_cookie under_load mac_state of
                None \<Rightarrow> Inr (net_dbg_ratelimited LOG_INVALID_MAC s1)
              | Some needs_cookie \<Rightarrow>
                  handshake_switch env mt needs_cookie skb data len s1)))"

subsection \<open>packet_process_queued_handshake_packets: the worker\<close>

text \<open>
  The body of the loop for the buffer that \<^verbatim>\<open>skb_dequeue\<close> has just taken off the
  queue: lines 163 to 165. The device it gets is the one after the dequeue.
\<close>

definition process_dequeued :: "env \<Rightarrow> sk_buff \<Rightarrow> wg_device \<Rightarrow> fault + wg_device" where
  "process_dequeued env skb s =
     (case skb_data_offset env skb s of
        (Inl e, s1) \<Rightarrow> Inr (dev_kfree_skb skb s1)
      | (Inr (offset, len), s1) \<Rightarrow>
          (case receive_handshake_packet env skb offset len s1 of
             Inl f \<Rightarrow> Inl f
           | Inr s2 \<Rightarrow> Inr (dev_kfree_skb skb s2)))"

text \<open>
  The loop, with \<^verbatim>\<open>num_processed\<close> as an argument; \<^verbatim>\<open>skb_dequeue\<close> returns NULL on the
  empty queue and the first buffer otherwise.
\<close>

function worker_loop :: "env \<Rightarrow> nat \<Rightarrow> wg_device \<Rightarrow> fault + wg_device" where
  "worker_loop env num_processed s =
     (case incoming_handshakes s of
        [] \<Rightarrow> Inr s
      | skb # rest \<Rightarrow>
          (case process_dequeued env skb (s\<lparr>incoming_handshakes := rest\<rparr>) of
             Inl f \<Rightarrow> Inl f
           | Inr s1 \<Rightarrow>
               if Suc num_processed = MAX_BURST_HANDSHAKES
               then Inr (queue_work s1)
               else worker_loop env (Suc num_processed) s1))"
  by pat_completeness auto

lemmas call_defs =
  emit_def net_dbg_ratelimited_def peer_put_def take_ref_def dev_kfree_skb_def
  socket_set_peer_addr_def cookie_message_consume_def cookie_validate_packet_def
  packet_send_handshake_cookie_def noise_handshake_consume_initiation_def
  noise_handshake_consume_response_def noise_handshake_begin_session_def
  packet_send_handshake_response_def timers_ephemeral_key_created_def
  timers_handshake_complete_def packet_send_queue_def
  timers_any_authorized_packet_received_def timers_data_received_def
  routing_table_lookup_src_def netif_rx_def queue_work_def packet_consume_data_def
  skb_queue_tail_def rx_stats_def update_latest_addr_def

lemmas size_defs =
  sizeof_iphdr_def sizeof_ipv6hdr_def sizeof_udphdr_def sizeof_message_header_def
  sizeof_message_handshake_initiation_def sizeof_message_handshake_response_def

text \<open>Nothing below the dequeue touches the queue, so the loop ends when the queue is empty.\<close>

lemma skb_data_offset_queue:
  "incoming_handshakes (snd (skb_data_offset env skb s)) = incoming_handshakes s"
  by (simp add: skb_data_offset_def Let_def call_defs)

lemma handshake_accepted_queue:
  "incoming_handshakes (handshake_accepted env p len skb s) = incoming_handshakes s"
  by (simp add: handshake_accepted_def call_defs split: option.splits)

lemma handshake_switch_queue:
  "handshake_switch env mt nc skb data len s = Inr s' \<Longrightarrow>
   incoming_handshakes s' = incoming_handshakes s"
  by (auto simp: handshake_switch_def handshake_accepted_queue call_defs
           split: message_type.splits if_splits option.splits prod.splits bool.splits)

lemma receive_handshake_packet_queue:
  "receive_handshake_packet env skb data len s = Inr s' \<Longrightarrow>
   incoming_handshakes s' = incoming_handshakes s"
  by (auto simp: receive_handshake_packet_def Let_def cookie_validate_packet_def
                 cookie_message_consume_def net_dbg_ratelimited_def emit_def
           split: if_splits option.splits dest!: handshake_switch_queue)

lemma process_dequeued_queue:
  "process_dequeued env skb s = Inr s' \<Longrightarrow> incoming_handshakes s' = incoming_handshakes s"
  using skb_data_offset_queue [of env skb s]
  by (auto simp: process_dequeued_def dev_kfree_skb_def emit_def
           split: prod.splits sum.splits dest!: receive_handshake_packet_queue)

termination worker_loop
  by (relation "measure (\<lambda>(env, n, s). length (incoming_handshakes s))")
     (auto dest!: process_dequeued_queue)

declare worker_loop.simps [simp del]

definition packet_process_queued_handshake_packets :: "env \<Rightarrow> wg_device \<Rightarrow> fault + wg_device" where
  "packet_process_queued_handshake_packets env s = worker_loop env 0 s"

subsection \<open>receive_data_packet: the completion callback of the decryption\<close>

text \<open>The label \<^verbatim>\<open>continue_processing\<close>: lines 257 to 259.\<close>

definition continue_processing :: "peer \<Rightarrow> sockaddr \<Rightarrow> wg_device \<Rightarrow> wg_device" where
  "continue_processing p addr s =
     peer_put (Some p)
       (socket_set_peer_addr p addr
         (timers_any_authorized_packet_received p s))"

text \<open>The label \<^verbatim>\<open>packet_processed\<close>: line 255, falling through to \<^verbatim>\<open>continue_processing\<close>.\<close>

definition packet_processed :: "sk_buff \<Rightarrow> peer \<Rightarrow> sockaddr \<Rightarrow> wg_device \<Rightarrow> wg_device" where
  "packet_processed skb p addr s = continue_processing p addr (dev_kfree_skb skb s)"

text \<open>\<^verbatim>\<open>++dev->stats.rx_errors; ++dev->stats.rx_length_errors;\<close>\<close>

definition count_length_error :: "wg_device \<Rightarrow> wg_device" where
  "count_length_error s =
     s\<lparr>rx_errors := rx_errors s + 1, rx_length_errors := rx_length_errors s + 1\<rparr>"

text \<open>\<^verbatim>\<open>++dev->stats.rx_errors; ++dev->stats.rx_frame_errors;\<close>\<close>

definition count_frame_error :: "wg_device \<Rightarrow> wg_device" where
  "count_frame_error s =
     s\<lparr>rx_errors := rx_errors s + 1, rx_frame_errors := rx_frame_errors s + 1\<rparr>"

text \<open>
  Lines 229 to 252: from \<^verbatim>\<open>timers_data_received\<close> on, for a buffer whose device,
  checksum state and protocol have been set.
\<close>

definition route_and_deliver :: "env \<Rightarrow> sk_buff \<Rightarrow> peer \<Rightarrow> sockaddr \<Rightarrow> wg_device \<Rightarrow> wg_device" where
  "route_and_deliver env skb p addr s =
     (case routing_table_lookup_src env skb (timers_data_received p s) of
        (routed_peer, s1) \<Rightarrow>
          let s2 = peer_put routed_peer s1 in
          if routed_peer \<noteq> Some p
          then packet_processed skb p addr
                 (count_frame_error (net_dbg_ratelimited LOG_UNALLOWED_SRC s2))
          else
            (case netif_rx env skb (emit E_set_last_rx s2) of
               (True, s3) \<Rightarrow> continue_processing p addr (rx_stats p (skb_len skb) s3)
             | (False, s3) \<Rightarrow>
                 continue_processing p addr
                   (net_dbg_ratelimited LOG_NETIF_RX_FAILED (s3\<lparr>rx_dropped := rx_dropped s3 + 1\<rparr>))))"

definition receive_data_packet ::
  "env \<Rightarrow> sk_buff \<Rightarrow> peer option \<Rightarrow> sockaddr option \<Rightarrow> bool \<Rightarrow> int \<Rightarrow> wg_device \<Rightarrow> wg_device" where
  "receive_data_packet env skb peer addr used_new_key err s =
     (if err < 0 then dev_kfree_skb skb s
      else
        (case (peer, addr) of
           (None, _) \<Rightarrow> dev_kfree_skb skb s
         | (Some p, None) \<Rightarrow> dev_kfree_skb skb s
         | (Some p, Some a) \<Rightarrow>
             let s1 = (if used_new_key then packet_send_queue p s else s) in
             if skb_len skb = 0
             then packet_processed skb p a (net_dbg_ratelimited LOG_KEEPALIVE s1)
             else if skb_len skb < sizeof_iphdr
             then packet_processed skb p a
                    (net_dbg_ratelimited LOG_MISSING_IP_HEADER (count_length_error s1))
             else if \<not> o_pskb_may_pull env skb 1
             then packet_processed skb p a
                    (net_dbg_ratelimited LOG_MISSING_IP_VERSION (count_length_error s1))
             else
               let skb1 = skb\<lparr>skb_dev_set := True, ip_summed := CHECKSUM_UNNECESSARY\<rparr> in
               if ip_version skb1 = 4
               then route_and_deliver env (skb1\<lparr>protocol := ETH_P_IP\<rparr>) p a s1
               else if ip_version skb1 = 6
               then
                 if skb_len skb1 < sizeof_ipv6hdr
                 then packet_processed skb1 p a
                        (net_dbg_ratelimited LOG_MISSING_IPV6_HEADER (count_length_error s1))
                 else route_and_deliver env (skb1\<lparr>protocol := ETH_P_IPV6\<rparr>) p a s1
               else packet_processed skb1 p a
                      (net_dbg_ratelimited LOG_NEITHER_V4_NOR_V6 (count_length_error s1))))"

subsection \<open>packet_receive: the entry point\<close>

text \<open>Lines 278 to 289: the three handshake cases of the switch share one body.\<close>

definition enqueue_handshake :: "env \<Rightarrow> sk_buff \<Rightarrow> wg_device \<Rightarrow> wg_device" where
  "enqueue_handshake env skb s =
     (if skb_queue_len (incoming_handshakes s) > MAX_QUEUED_HANDSHAKES
      then dev_kfree_skb skb (net_dbg_ratelimited LOG_TOO_MANY_HANDSHAKES s)
      else
        (case o_linearize env skb of
           None \<Rightarrow> dev_kfree_skb skb (net_dbg_ratelimited LOG_LINEARIZE_FAILED s)
         | Some linear \<Rightarrow> queue_work (skb_queue_tail linear s)))"

definition packet_receive :: "env \<Rightarrow> sk_buff \<Rightarrow> wg_device \<Rightarrow> wg_device" where
  "packet_receive env skb s =
     (case skb_data_offset env skb s of
        (Inl e, s1) \<Rightarrow> dev_kfree_skb skb s1
      | (Inr (offset, len), s1) \<Rightarrow>
          (case o_message_type env skb offset len of
             MESSAGE_HANDSHAKE_INITIATION \<Rightarrow> enqueue_handshake env skb s1
           | MESSAGE_HANDSHAKE_RESPONSE \<Rightarrow> enqueue_handshake env skb s1
           | MESSAGE_HANDSHAKE_COOKIE \<Rightarrow> enqueue_handshake env skb s1
           | MESSAGE_DATA \<Rightarrow> packet_consume_data skb offset s1
           | MESSAGE_INVALID \<Rightarrow> dev_kfree_skb skb (net_dbg_ratelimited LOG_INVALID_PACKET s1)))"

subsection \<open>Reading a trace\<close>

text \<open>The buffers released by \<^verbatim>\<open>dev_kfree_skb\<close> and those handed to \<^verbatim>\<open>netif_rx\<close>, by \<open>skb_id\<close>.\<close>

fun freed_of :: "event \<Rightarrow> nat list" where
  "freed_of (E_dev_kfree_skb b) = [skb_id b]"
| "freed_of _ = []"

fun delivered_of :: "event \<Rightarrow> nat list" where
  "delivered_of (E_netif_rx b) = [skb_id b]"
| "delivered_of _ = []"

definition freed :: "event list \<Rightarrow> nat list" where
  "freed tr = concat (map freed_of tr)"

definition delivered :: "event list \<Rightarrow> nat list" where
  "delivered tr = concat (map delivered_of tr)"

text \<open>The data that reaches the cookie checker, the cookie consumer and the noise consumers.\<close>

fun handshake_payload :: "event \<Rightarrow> (sk_buff \<times> nat) option" where
  "handshake_payload (E_cookie_message_consume b d) = Some (b, d)"
| "handshake_payload (E_cookie_validate_packet b d l u) = Some (b, d)"
| "handshake_payload (E_packet_send_handshake_cookie b d l i) = Some (b, d)"
| "handshake_payload (E_noise_handshake_consume_initiation b d) = Some (b, d)"
| "handshake_payload (E_noise_handshake_consume_response b d) = Some (b, d)"
| "handshake_payload _ = None"

text \<open>An event hands out a payload only behind a UDP header and with its message header pulled.\<close>

definition header_pulled :: "env \<Rightarrow> event \<Rightarrow> bool" where
  "header_pulled env e =
     (case handshake_payload e of
        None \<Rightarrow> True
      | Some (b, d) \<Rightarrow>
          d = udp_hdr_offset b + sizeof_udphdr \<and>
          o_pskb_may_pull env b (d + sizeof_message_header))"

fun is_peer_put :: "event \<Rightarrow> bool" where
  "is_peer_put (E_peer_put p) = True"
| "is_peer_put _ = False"

fun is_lookup :: "event \<Rightarrow> bool" where
  "is_lookup (E_routing_table_lookup_src b) = True"
| "is_lookup _ = False"

text \<open>
  The buffer as \<^verbatim>\<open>receive_data_packet\<close> has prepared it (lines 210 to 221) when it reaches
  the routing check, and the condition under which it gets there (lines 191 to 227).
\<close>

definition inner_skb :: "sk_buff \<Rightarrow> sk_buff" where
  "inner_skb skb =
     skb\<lparr>skb_dev_set := True, ip_summed := CHECKSUM_UNNECESSARY,
         protocol := (if ip_version skb = 4 then ETH_P_IP else ETH_P_IPV6)\<rparr>"

definition reaches_routing_check :: "env \<Rightarrow> sk_buff \<Rightarrow> bool" where
  "reaches_routing_check env skb =
     (skb_len skb \<noteq> 0 \<and> 20 \<le> skb_len skb \<and> o_pskb_may_pull env skb 1 \<and>
      (ip_version skb = 4 \<or> (ip_version skb = 6 \<and> 40 \<le> skb_len skb)))"

text \<open>
  The trace of \<open>s'\<close> is the trace of \<open>s\<close> with more events behind it, each of which
  satisfies \<open>P\<close>.
\<close>

definition grows :: "(event \<Rightarrow> bool) \<Rightarrow> wg_device \<Rightarrow> wg_device \<Rightarrow> bool" where
  "grows P s s' = (\<exists>evs. trace s' = trace s @ evs \<and> list_all P evs)"

text \<open>
  Modelled from the spec: cookie.c is not among the sources. The spec gives the
  cookie checker as a constant-time MAC1 check whose MAC2 check is skipped when
  not under load; \<^verbatim>\<open>receive_handshake_packet\<close> hands it the load flag in line 97. So
  for a payload that is validated without load the checker does not answer
  \<^verbatim>\<open>VALID_MAC_WITH_COOKIE\<close>.
\<close>

definition mac2_skipped_without_load :: "env \<Rightarrow> sk_buff \<Rightarrow> nat \<Rightarrow> nat \<Rightarrow> bool" where
  "mac2_skipped_without_load env skb data len =
     (o_mac_state env skb data len False \<noteq> VALID_MAC_WITH_COOKIE)"

subsection \<open>Sample values\<close>

text \<open>
  A datagram of 156 bytes from the UDP header on (8 bytes of UDP header and a
  handshake initiation of 148 bytes), a decrypted inner packet of 84 bytes, a
  keep-alive, an idle device, and collaborators that answer the same to every
  question: the message type \<open>mt\<close>, the verdict \<open>mac\<close>, the routed peer \<open>r\<close>.
\<close>

definition sample_skb :: sk_buff where
  "sample_skb =
     \<lparr>skb_id = 1, skb_len = 156, ip_version = 4, udp_hdr_offset = 0, udp_len = 156,
      skb_dev_set = False, ip_summed = CHECKSUM_NONE, protocol = ETH_P_UNSET\<rparr>"

definition sample_inner :: sk_buff where
  "sample_inner =
     \<lparr>skb_id = 2, skb_len = 84, ip_version = 4, udp_hdr_offset = 20, udp_len = 64,
      skb_dev_set = False, ip_summed = CHECKSUM_NONE, protocol = ETH_P_UNSET\<rparr>"

definition sample_keepalive :: sk_buff where
  "sample_keepalive =
     \<lparr>skb_id = 3, skb_len = 0, ip_version = 0, udp_hdr_offset = 0, udp_len = 0,
      skb_dev_set = False, ip_summed = CHECKSUM_NONE, protocol = ETH_P_UNSET\<rparr>"

definition idle_device :: wg_device where
  "idle_device =
     \<lparr>incoming_handshakes = [], rx_errors = 0, rx_length_errors = 0, rx_frame_errors = 0,
      rx_dropped = 0, tstats_rx_bytes = 0, tstats_rx_packets = 0,
      peer_rx_bytes = (\<lambda>p. 0), refcount = (\<lambda>p. 1), trace = []\<rparr>"

definition sample_env :: "message_type \<Rightarrow> cookie_mac_state \<Rightarrow> peer option \<Rightarrow> env" where
  "sample_env mt mac r =
     \<lparr>o_pskb_may_pull = (\<lambda>skb n. n \<le> skb_len skb),
      o_message_type = (\<lambda>skb offset len. mt),
      o_sender_index = (\<lambda>skb offset. 7),
      o_mac_state = (\<lambda>skb offset len under_load. mac),
      o_consume_initiation = (\<lambda>skb offset. Some 5),
      o_consume_response = (\<lambda>skb offset. Some 5),
      o_begin_session = (\<lambda>p. True),
      o_addr_from_skb = (\<lambda>skb. Some 9),
      o_linearize = (\<lambda>skb. Some skb),
      o_lookup_src = (\<lambda>skb. r),
      o_netif_rx = (\<lambda>skb. True)\<rparr>"

text \<open>A device with 2048 buffers queued, half of \<^verbatim>\<open>MAX_QUEUED_HANDSHAKES\<close>.\<close>

definition loaded_device :: wg_device where
  "loaded_device =
     idle_device\<lparr>incoming_handshakes :=
       [sample_skb, sample_skb, sample_skb, sample_skb, sample_skb, sample_skb, sample_skb,
        sample_skb] @ replicate 2040 sample_skb\<rparr>"

lemma sample_env_sel:
  "o_pskb_may_pull (sample_env mt mac r) = (\<lambda>skb n. n \<le> skb_len skb)"
  "o_message_type (sample_env mt mac r) = (\<lambda>skb offset len. mt)"
  "o_sender_index (sample_env mt mac r) = (\<lambda>skb offset. 7)"
  "o_mac_state (sample_env mt mac r) = (\<lambda>skb offset len under_load. mac)"
  "o_consume_initiation (sample_env mt mac r) = (\<lambda>skb offset. Some 5)"
  "o_consume_response (sample_env mt mac r) = (\<lambda>skb offset. Some 5)"
  "o_begin_session (sample_env mt mac r) = (\<lambda>p. True)"
  "o_addr_from_skb (sample_env mt mac r) = (\<lambda>skb. Some 9)"
  "o_linearize (sample_env mt mac r) = (\<lambda>skb. Some skb)"
  "o_lookup_src (sample_env mt mac r) = (\<lambda>skb. r)"
  "o_netif_rx (sample_env mt mac r) = (\<lambda>skb. True)"
  by (simp_all add: sample_env_def)

lemma sample_parse:
  "skb_data_offset (sample_env mt mac r) sample_skb s = (Inr (8, 148), s)"
  by (simp add: skb_data_offset_def Let_def size_defs sample_env_def sample_skb_def)

section \<open>Properties\<close>

subsection \<open>The outer-frame parser\<close>

text \<open>
  Claim C7. The outer-frame parser fails with \<^verbatim>\<open>-EINVAL\<close> exactly when one of its
  checks fails: the buffer is shorter than an IPv4 header (20 bytes); the IP
  version is neither 4 nor 6; the version is 6 and the buffer is shorter than 40
  bytes; the UDP header is not fully present (\<open>udp_offset + 8\<close> exceeds the length);
  the UDP length field is below 8 or above the bytes that remain after
  \<open>udp_offset\<close>; the 4 bytes of the message header behind the UDP header cannot be
  pulled. When no check fails it returns \<open>data_offset = udp_offset + 8\<close> and
  \<open>data_len = udp_length - 8\<close>.
\<close>

theorem skb_data_offset_checks:
  "fst (skb_data_offset env skb s) =
     (if skb_len skb < 20
         \<or> (ip_version skb \<noteq> 4 \<and> ip_version skb \<noteq> 6)
         \<or> (ip_version skb = 6 \<and> skb_len skb < 40)
         \<or> skb_len skb < udp_hdr_offset skb + 8
         \<or> udp_len skb < 8
         \<or> skb_len skb - udp_hdr_offset skb < udp_len skb
         \<or> \<not> o_pskb_may_pull env skb (udp_hdr_offset skb + 8 + 4)
      then Inl EINVAL
      else Inr (udp_hdr_offset skb + 8, udp_len skb - 8))"
  by (simp add: skb_data_offset_def Let_def size_defs)

text \<open>
  The sample datagram parses to offset 8 and length 148; with the UDP length field
  set to 7 it is refused.
\<close>

theorem skb_data_offset_checks_witness:
  "fst (skb_data_offset (sample_env MESSAGE_HANDSHAKE_INITIATION VALID_MAC_BUT_NO_COOKIE None)
          sample_skb idle_device) = Inr (8, 148)
   \<and> fst (skb_data_offset (sample_env MESSAGE_HANDSHAKE_INITIATION VALID_MAC_BUT_NO_COOKIE None)
          (sample_skb\<lparr>udp_len := 7\<rparr>) idle_device) = Inl EINVAL"
  using skb_data_offset_checks
          [of "sample_env MESSAGE_HANDSHAKE_INITIATION VALID_MAC_BUT_NO_COOKIE None"
              sample_skb idle_device]
        skb_data_offset_checks
          [of "sample_env MESSAGE_HANDSHAKE_INITIATION VALID_MAC_BUT_NO_COOKIE None"
              "sample_skb\<lparr>udp_len := 7\<rparr>" idle_device]
  by (simp add: sample_env_def sample_skb_def)

subsection \<open>The handshake handler\<close>

text \<open>
  Claim C1. For every handshake message that is not a cookie reply the handler asks
  the cookie checker once, handing it the load flag, and then acts by the pair of
  the load flag and the verdict as the decision matrix says: an invalid MAC is
  dropped under any load; without load a valid MAC1 without cookie is accepted;
  without load a valid MAC1 with cookie is accepted; under load a valid MAC1 with
  cookie is accepted; under load a valid MAC1 without cookie needs a cookie.
  Accepting is entering the switch on the message type with
  \<^verbatim>\<open>packet_needs_cookie = false\<close>, needing a cookie is entering it with \<^verbatim>\<open>true\<close>, and
  dropping is logging and returning. The checker is one that skips the MAC2 check
  without load, as its interface in the spec says.
\<close>

theorem handshake_decision_matrix:
  assumes "o_message_type env skb data len \<noteq> MESSAGE_HANDSHAKE_COOKIE"
    and "mac2_skipped_without_load env skb data len"
  shows "receive_handshake_packet env skb data len s =
     (let mt = o_message_type env skb data len;
          under_load = (MAX_QUEUED_HANDSHAKES div 2 \<le> length (incoming_handshakes s));
          s1 = emit (E_cookie_validate_packet skb data len under_load) s
      in case (under_load, o_mac_state env skb data len under_load) of
           (True, INVALID_MAC) \<Rightarrow> Inr (emit (E_log LOG_INVALID_MAC) s1)
         | (False, INVALID_MAC) \<Rightarrow> Inr (emit (E_log LOG_INVALID_MAC) s1)
         | (False, VALID_MAC_BUT_NO_COOKIE) \<Rightarrow> handshake_switch env mt False skb data len s1
         | (False, VALID_MAC_WITH_COOKIE) \<Rightarrow> handshake_switch env mt False skb data len s1
         | (True, VALID_MAC_WITH_COOKIE) \<Rightarrow> handshake_switch env mt False skb data len s1
         | (True, VALID_MAC_BUT_NO_COOKIE) \<Rightarrow> handshake_switch env mt True skb data len s1)"
  using assms
  by (simp add: receive_handshake_packet_def Let_def cookie_validate_packet_def
        packet_needs_cookie_def net_dbg_ratelimited_def skb_queue_len_def
        mac2_skipped_without_load_def
      split: cookie_mac_state.splits bool.splits)

text \<open>
  An initiation with a valid MAC1 and no cookie on an idle device is accepted: the
  initiation is consumed, the response is sent, the counters move and the
  reference of the peer is released.
\<close>

theorem handshake_decision_matrix_witness:
  "receive_handshake_packet
     (sample_env MESSAGE_HANDSHAKE_INITIATION VALID_MAC_BUT_NO_COOKIE None)
     sample_skb 8 148 idle_device
   = Inr (idle_device\<lparr>
        tstats_rx_bytes := 148, tstats_rx_packets := 1,
        peer_rx_bytes := (\<lambda>p. 0)(5 := 148),
        refcount := (\<lambda>p. 1),
        trace := [E_cookie_validate_packet sample_skb 8 148 False,
                 E_noise_handshake_consume_initiation sample_skb 8,
                 E_log LOG_RECEIVING_INITIATION,
                 E_socket_set_peer_addr 5 9,
                 E_packet_send_handshake_response 5,
                 E_timers_any_authorized_packet_received 5,
                 E_socket_set_peer_addr 5 9,
                 E_peer_put (Some 5)]\<rparr>)"
  using handshake_decision_matrix
          [of "sample_env MESSAGE_HANDSHAKE_INITIATION VALID_MAC_BUT_NO_COOKIE None"
              sample_skb 8 148 idle_device]
  by (simp add: mac2_skipped_without_load_def sample_env_def idle_device_def
        MAX_QUEUED_HANDSHAKES_def handshake_switch_def handshake_accepted_def call_defs
        fun_eq_iff)

text \<open>
  Claim C8. Under load (the queue holds at least half of \<^verbatim>\<open>MAX_QUEUED_HANDSHAKES\<close>) and
  with the verdict "valid MAC1, no cookie", handling an initiation or a response
  sends exactly one cookie reply, built from the datagram (whose source it is
  addressed to) and the sender index of the message, and changes nothing else: the
  device afterwards is the device before with two more events, the question to the
  cookie checker and the cookie reply. No noise consumer runs, no peer address is
  set, no counter and no reference count moves.
\<close>

theorem cookie_reply_under_load:
  assumes "MAX_QUEUED_HANDSHAKES div 2 \<le> length (incoming_handshakes s)"
    and "o_mac_state env skb data len True = VALID_MAC_BUT_NO_COOKIE"
    and "o_message_type env skb data len = MESSAGE_HANDSHAKE_INITIATION
         \<or> o_message_type env skb data len = MESSAGE_HANDSHAKE_RESPONSE"
  shows "receive_handshake_packet env skb data len s =
     Inr (s\<lparr>trace := trace s @
            [E_cookie_validate_packet skb data len True,
             E_packet_send_handshake_cookie skb data
               (if o_message_type env skb data len = MESSAGE_HANDSHAKE_INITIATION
                then 148 else 92)
               (o_sender_index env skb data)]\<rparr>)"
  using assms
  by (auto simp: receive_handshake_packet_def Let_def cookie_validate_packet_def
        packet_needs_cookie_def skb_queue_len_def handshake_switch_def
        packet_send_handshake_cookie_def emit_def size_defs)

text \<open>A response with a valid MAC1 and no cookie, with 2048 buffers queued.\<close>

theorem cookie_reply_under_load_witness:
  "receive_handshake_packet
     (sample_env MESSAGE_HANDSHAKE_RESPONSE VALID_MAC_BUT_NO_COOKIE None) sample_skb 8 92
     (idle_device\<lparr>incoming_handshakes := replicate 2048 sample_skb\<rparr>)
   = Inr (idle_device\<lparr>incoming_handshakes := replicate 2048 sample_skb,
            trace := [E_cookie_validate_packet sample_skb 8 92 True,
                     E_packet_send_handshake_cookie sample_skb 8 92 7]\<rparr>)"
  using cookie_reply_under_load
          [of "idle_device\<lparr>incoming_handshakes := replicate 2048 sample_skb\<rparr>"
              "sample_env MESSAGE_HANDSHAKE_RESPONSE VALID_MAC_BUT_NO_COOKIE None"
              sample_skb 8 92]
  by (simp add: sample_env_def idle_device_def MAX_QUEUED_HANDSHAKES_def)

subsection \<open>The worker\<close>

lemma grows_refl: "grows P s s"
  by (simp add: grows_def)

lemma grows_trans: "grows P s s1 \<Longrightarrow> grows P s1 s2 \<Longrightarrow> grows P s s2"
  by (auto simp: grows_def)

lemma grows_emit: "P e \<Longrightarrow> grows P s (emit e s)"
  by (simp add: grows_def emit_def)

text \<open>
  What the parser returns does not depend on the device, and a parse that succeeds
  leaves the device as it is.
\<close>

lemma skb_data_offset_fst:
  "fst (skb_data_offset env skb s) = fst (skb_data_offset env skb s0)"
  by (simp add: skb_data_offset_def Let_def)

lemma skb_data_offset_ok:
  "fst (skb_data_offset env skb s) = Inr (offset, len) \<Longrightarrow>
   skb_data_offset env skb s = (Inr (offset, len), s) \<and>
   offset = udp_hdr_offset skb + sizeof_udphdr \<and>
   o_pskb_may_pull env skb (offset + sizeof_message_header)"
  by (auto simp: skb_data_offset_def Let_def split: if_splits)

lemma skb_data_offset_fail:
  "fst (skb_data_offset env skb s) = Inl e \<Longrightarrow>
   \<exists>msgs. snd (skb_data_offset env skb s) = s\<lparr>trace := trace s @ map E_log msgs\<rparr>"
proof -
  have a: "\<exists>msgs. s = s\<lparr>trace := trace s @ map E_log msgs\<rparr>"
    by (rule exI [of _ "[]"]) simp
  have b: "\<And>m. \<exists>msgs. s\<lparr>trace := trace s @ [E_log m]\<rparr> = s\<lparr>trace := trace s @ map E_log msgs\<rparr>"
    subgoal for m by (rule exI [of _ "[m]"]) simp
    done
  assume "fst (skb_data_offset env skb s) = Inl e"
  then show ?thesis using a b
    by (auto simp: skb_data_offset_def Let_def net_dbg_ratelimited_def emit_def split: if_splits)
qed

text \<open>
  Every event of the handshake handler carries either no payload or the payload it
  was called with; so do the body of the worker's loop and the loop itself, for
  the payloads the parser returns.
\<close>

lemma handshake_accepted_grows:
  "(\<And>e. handshake_payload e = None \<Longrightarrow> P e) \<Longrightarrow> grows P s (handshake_accepted env p len skb s)"
  by (simp add: handshake_accepted_def call_defs grows_def split: option.splits)

lemma handshake_switch_grows:
  assumes "\<And>e. handshake_payload e = None \<Longrightarrow> P e"
    and "\<And>e. handshake_payload e = Some (skb, data) \<Longrightarrow> P e"
  shows "grows P s (device_of (handshake_switch env mt nc skb data len s))"
  using assms
  by (simp add: handshake_switch_def handshake_accepted_def call_defs grows_def
       split: message_type.splits option.splits prod.splits bool.splits)

lemma receive_handshake_packet_grows:
  assumes none: "\<And>e. handshake_payload e = None \<Longrightarrow> P e"
    and some: "\<And>e. handshake_payload e = Some (skb, data) \<Longrightarrow> P e"
  shows "grows P s (device_of (receive_handshake_packet env skb data len s))"
proof -
  have sw: "grows P s (device_of (handshake_switch env mt nc skb data len s1))"
    if "grows P s s1" for mt nc s1
  proof -
    have "grows P s1 (device_of (handshake_switch env mt nc skb data len s1))"
      by (rule handshake_switch_grows) (rule none, assumption, rule some, assumption)
    with that show ?thesis by (rule grows_trans)
  qed
  have em: "grows P s (emit e s1)" if "P e" "grows P s s1" for e s1
    using that grows_emit [of P e s1] grows_trans by blast
  show ?thesis
  proof (cases "o_message_type env skb data len = MESSAGE_HANDSHAKE_COOKIE")
    case True
    have "grows P s (emit (E_cookie_message_consume skb data) (emit (E_log LOG_RECEIVING_COOKIE) s))"
      by (intro em grows_refl) (simp_all add: none some)
    with True show ?thesis
      by (simp add: receive_handshake_packet_def cookie_message_consume_def
            net_dbg_ratelimited_def)
  next
    case False
    let ?ul = "MAX_QUEUED_HANDSHAKES div 2 \<le> skb_queue_len (incoming_handshakes s)"
    let ?s1 = "emit (E_cookie_validate_packet skb data len ?ul) s"
    have g1: "grows P s ?s1"
      by (intro em grows_refl) (simp add: some)
    show ?thesis
    proof (cases "packet_needs_cookie ?ul (o_mac_state env skb data len ?ul)")
      case None
      have "grows P s (emit (E_log LOG_INVALID_MAC) ?s1)"
        by (intro em g1) (simp add: none)
      with False None show ?thesis
        by (simp add: receive_handshake_packet_def cookie_validate_packet_def
              net_dbg_ratelimited_def)
    next
      case (Some nc)
      with False sw [OF g1] show ?thesis
        by (simp add: receive_handshake_packet_def cookie_validate_packet_def)
    qed
  qed
qed

lemma process_dequeued_grows:
  assumes none: "\<And>e. handshake_payload e = None \<Longrightarrow> P e"
    and some: "\<And>e d. handshake_payload e = Some (skb, d) \<Longrightarrow>
                 d = udp_hdr_offset skb + sizeof_udphdr \<Longrightarrow>
                 o_pskb_may_pull env skb (d + sizeof_message_header) \<Longrightarrow> P e"
  shows "grows P s (device_of (process_dequeued env skb s))"
proof (cases "fst (skb_data_offset env skb s)")
  case (Inl e)
  then obtain msgs where "snd (skb_data_offset env skb s) = s\<lparr>trace := trace s @ map E_log msgs\<rparr>"
    using skb_data_offset_fail by blast
  with Inl have "process_dequeued env skb s =
      Inr (s\<lparr>trace := trace s @ map E_log msgs @ [E_dev_kfree_skb skb]\<rparr>)"
    by (cases "skb_data_offset env skb s") (simp add: process_dequeued_def dev_kfree_skb_def emit_def)
  then show ?thesis
    by (auto simp: grows_def list_all_iff intro: none)
next
  case (Inr r)
  obtain offset len where r: "r = (offset, len)" by (cases r)
  from Inr r have "fst (skb_data_offset env skb s) = Inr (offset, len)" by simp
  from skb_data_offset_ok [OF this]
  have ok: "skb_data_offset env skb s = (Inr (offset, len), s)"
    and off: "offset = udp_hdr_offset skb + sizeof_udphdr"
    and pull: "o_pskb_may_pull env skb (offset + sizeof_message_header)"
    by blast+
  have g: "grows P s (device_of (receive_handshake_packet env skb offset len s))"
  proof (rule receive_handshake_packet_grows)
    fix e assume "handshake_payload e = None"
    then show "P e" by (rule none)
  next
    fix e assume "handshake_payload e = Some (skb, offset)"
    then show "P e" using off pull by (rule some)
  qed
  show ?thesis
  proof (cases "receive_handshake_packet env skb offset len s")
    case (Inl f)
    with g ok show ?thesis by (simp add: process_dequeued_def)
  next
    case (Inr s2)
    with g have "grows P s s2" by simp
    moreover have "grows P s2 (dev_kfree_skb skb s2)"
      unfolding dev_kfree_skb_def by (rule grows_emit) (simp add: none)
    ultimately show ?thesis using ok Inr by (simp add: process_dequeued_def grows_trans)
  qed
qed

lemma worker_loop_grows:
  assumes none: "\<And>e. handshake_payload e = None \<Longrightarrow> P e"
    and some: "\<And>e b d. handshake_payload e = Some (b, d) \<Longrightarrow>
                 d = udp_hdr_offset b + sizeof_udphdr \<Longrightarrow>
                 o_pskb_may_pull env b (d + sizeof_message_header) \<Longrightarrow> P e"
  shows "grows P s (device_of (worker_loop env n s))"
  using assms
proof (induction env n s rule: worker_loop.induct)
  case (1 env n s)
  note none = "1.prems" (1) and some = "1.prems" (2)
  show ?case
  proof (cases "incoming_handshakes s")
    case Nil
    then show ?thesis by (simp add: worker_loop.simps [of env n s] grows_refl)
  next
    case (Cons skb rest)
    let ?s0 = "s\<lparr>incoming_handshakes := rest\<rparr>"
    have g0: "grows P s ?s0" by (simp add: grows_def)
    have g1: "grows P ?s0 (device_of (process_dequeued env skb ?s0))"
    proof (rule process_dequeued_grows)
      fix e assume "handshake_payload e = None"
      then show "P e" by (rule none)
    next
      fix e d
      assume "handshake_payload e = Some (skb, d)" "d = udp_hdr_offset skb + sizeof_udphdr"
        "o_pskb_may_pull env skb (d + sizeof_message_header)"
      then show "P e" by (rule some)
    qed
    show ?thesis
    proof (cases "process_dequeued env skb ?s0")
      case (Inl f)
      with Cons g0 g1 show ?thesis
        by (simp add: worker_loop.simps [of env n s]) (metis grows_trans)
    next
      case (Inr s1)
      with g0 g1 have gs1: "grows P s s1" using grows_trans by fastforce
      show ?thesis
      proof (cases "Suc n = MAX_BURST_HANDSHAKES")
        case True
        have "grows P s1 (queue_work s1)"
          unfolding queue_work_def by (rule grows_emit) (simp add: none)
        with gs1 Cons Inr True show ?thesis
          by (simp add: worker_loop.simps [of env n s]) (metis grows_trans)
      next
        case False
        have "grows P s1 (device_of (worker_loop env (Suc n) s1))"
          using "1.IH" [OF Cons Inr False] "1.prems" by blast
        with gs1 Cons Inr False show ?thesis
          by (simp add: worker_loop.simps [of env n s]) (metis grows_trans)
      qed
    qed
  qed
qed


lemma receive_handshake_packet_first:
  assumes "o_message_type env skb data len \<noteq> MESSAGE_HANDSHAKE_COOKIE"
  shows "\<exists>evs. trace (device_of (receive_handshake_packet env skb data len s)) =
           trace s @ E_cookie_validate_packet skb data len
                       (MAX_QUEUED_HANDSHAKES div 2 \<le> length (incoming_handshakes s)) # evs"
proof -
  let ?ul = "MAX_QUEUED_HANDSHAKES div 2 \<le> length (incoming_handshakes s)"
  let ?s1 = "emit (E_cookie_validate_packet skb data len ?ul) s"
  show ?thesis
  proof (cases "packet_needs_cookie ?ul (o_mac_state env skb data len ?ul)")
    case None
    with assms show ?thesis
      by (simp add: receive_handshake_packet_def cookie_validate_packet_def
            net_dbg_ratelimited_def emit_def skb_queue_len_def)
  next
    case (Some nc)
    have "grows (\<lambda>e. True) ?s1
            (device_of (handshake_switch env (o_message_type env skb data len) nc skb data len ?s1))"
      by (rule handshake_switch_grows) simp_all
    then obtain evs where
      "trace (device_of (handshake_switch env (o_message_type env skb data len) nc skb data len ?s1))
         = trace ?s1 @ evs"
      by (auto simp: grows_def)
    with assms Some show ?thesis
      by (simp add: receive_handshake_packet_def cookie_validate_packet_def
            skb_queue_len_def emit_def)
  qed
qed

lemma process_dequeued_first:
  assumes "fst (skb_data_offset env skb s) = Inr (offset, len)"
    and "o_message_type env skb offset len \<noteq> MESSAGE_HANDSHAKE_COOKIE"
  shows "\<exists>evs. trace (device_of (process_dequeued env skb s)) =
           trace s @ E_cookie_validate_packet skb offset len
                       (MAX_QUEUED_HANDSHAKES div 2 \<le> length (incoming_handshakes s)) # evs"
proof -
  from skb_data_offset_ok [OF assms(1)]
  have ok: "skb_data_offset env skb s = (Inr (offset, len), s)" by blast
  from receive_handshake_packet_first [OF assms(2), of s]
  obtain evs where evs: "trace (device_of (receive_handshake_packet env skb offset len s)) =
           trace s @ E_cookie_validate_packet skb offset len
                       (MAX_QUEUED_HANDSHAKES div 2 \<le> length (incoming_handshakes s)) # evs"
    by blast
  show ?thesis
  proof (cases "receive_handshake_packet env skb offset len s")
    case (Inl f)
    with ok evs show ?thesis by (simp add: process_dequeued_def)
  next
    case (Inr s2)
    with ok evs show ?thesis by (simp add: process_dequeued_def dev_kfree_skb_def emit_def)
  qed
qed

text \<open>
  Claim C5, as amended. For every handshake message that is not a cookie reply and
  that the worker processes, the load flag is computed as
  \<open>queue_len \<ge> MAX_QUEUED_HANDSHAKES / 2\<close> from the length of the queue at the time
  of processing, which is after this buffer has been dequeued: it counts the
  buffers still queued behind it. The flag is the one handed to the cookie
  checker, the first event of the iteration; \<open>num_processed\<close> is arbitrary, so this
  holds in every iteration of the loop.
\<close>

theorem under_load_after_dequeue:
  assumes "incoming_handshakes s = skb # rest"
    and "fst (skb_data_offset env skb s) = Inr (offset, len)"
    and "o_message_type env skb offset len \<noteq> MESSAGE_HANDSHAKE_COOKIE"
  shows "\<exists>evs. trace (device_of (worker_loop env n s)) =
           trace s @ E_cookie_validate_packet skb offset len
                       (MAX_QUEUED_HANDSHAKES div 2 \<le> length rest) # evs"
proof -
  let ?s0 = "s\<lparr>incoming_handshakes := rest\<rparr>"
  have "fst (skb_data_offset env skb ?s0) = Inr (offset, len)"
    using assms(2) skb_data_offset_fst [of env skb ?s0 s] by simp
  from process_dequeued_first [OF this assms(3)]
  obtain evs where evs: "trace (device_of (process_dequeued env skb ?s0)) =
      trace s @ E_cookie_validate_packet skb offset len
                  (MAX_QUEUED_HANDSHAKES div 2 \<le> length rest) # evs"
    by auto
  show ?thesis
  proof (cases "process_dequeued env skb ?s0")
    case (Inl f)
    with evs assms(1) show ?thesis by (simp add: worker_loop.simps [of env n s])
  next
    case (Inr s1)
    show ?thesis
    proof (cases "Suc n = MAX_BURST_HANDSHAKES")
      case True
      with evs assms(1) Inr show ?thesis
        by (simp add: worker_loop.simps [of env n s] queue_work_def emit_def)
    next
      case False
      have "grows (\<lambda>e. True) s1 (device_of (worker_loop env (Suc n) s1))"
        by (rule worker_loop_grows) simp_all
      then obtain more where "trace (device_of (worker_loop env (Suc n) s1)) = trace s1 @ more"
        by (auto simp: grows_def)
      with evs assms(1) Inr False show ?thesis
        by (simp add: worker_loop.simps [of env n s])
    qed
  qed
qed

text \<open>One initiation in the queue: it is validated with the flag of an empty queue.\<close>

theorem under_load_after_dequeue_witness:
  "\<exists>evs. trace (device_of (worker_loop
              (sample_env MESSAGE_HANDSHAKE_INITIATION VALID_MAC_BUT_NO_COOKIE None) 0
              (idle_device\<lparr>incoming_handshakes := [sample_skb]\<rparr>)))
     = E_cookie_validate_packet sample_skb 8 148 False # evs"
  using under_load_after_dequeue
          [of "idle_device\<lparr>incoming_handshakes := [sample_skb]\<rparr>" sample_skb "[]"
              "sample_env MESSAGE_HANDSHAKE_INITIATION VALID_MAC_BUT_NO_COOKIE None" 8 148 0]
  by (simp add: skb_data_offset_def Let_def size_defs sample_env_def sample_skb_def
        idle_device_def MAX_QUEUED_HANDSHAKES_def)

text \<open>
  With 2048 buffers queued when the worker starts, which is half of
  \<^verbatim>\<open>MAX_QUEUED_HANDSHAKES\<close>, the length before the dequeue would raise the load flag
  for the first buffer; the worker validates it with the flag down.
\<close>

theorem under_load_counterexample:
  "length (incoming_handshakes loaded_device) = 2048
   \<and> MAX_QUEUED_HANDSHAKES div 2 = 2048
   \<and> hd (trace (device_of (packet_process_queued_handshake_packets
              (sample_env MESSAGE_HANDSHAKE_INITIATION INVALID_MAC None) loaded_device)))
       = E_cookie_validate_packet sample_skb 8 148 False"
  by (simp add: packet_process_queued_handshake_packets_def worker_loop.simps
        process_dequeued_def sample_parse receive_handshake_packet_def Let_def
        cookie_validate_packet_def packet_needs_cookie_def net_dbg_ratelimited_def
        dev_kfree_skb_def queue_work_def emit_def skb_queue_len_def
        loaded_device_def idle_device_def MAX_QUEUED_HANDSHAKES_def MAX_BURST_HANDSHAKES_def
        sample_env_sel)

text \<open>
  The trace of a run of the worker starts with the trace of the body of the loop
  for the first buffer; a cookie reply that parses is consumed and freed.
\<close>

lemma worker_loop_head:
  assumes "incoming_handshakes s = skb # rest"
  shows "\<exists>evs. trace (device_of (worker_loop env n s)) =
           trace (device_of (process_dequeued env skb (s\<lparr>incoming_handshakes := rest\<rparr>))) @ evs"
proof (cases "process_dequeued env skb (s\<lparr>incoming_handshakes := rest\<rparr>)")
  case (Inl f)
  with assms show ?thesis by (simp add: worker_loop.simps [of env n s])
next
  case (Inr s1)
  show ?thesis
  proof (cases "Suc n = MAX_BURST_HANDSHAKES")
    case True
    with assms Inr show ?thesis
      by (simp add: worker_loop.simps [of env n s] queue_work_def emit_def)
  next
    case False
    have "grows (\<lambda>e. True) s1 (device_of (worker_loop env (Suc n) s1))"
      by (rule worker_loop_grows) simp_all
    then obtain more where "trace (device_of (worker_loop env (Suc n) s1)) = trace s1 @ more"
      by (auto simp: grows_def)
    with assms Inr False show ?thesis
      by (simp add: worker_loop.simps [of env n s])
  qed
qed

lemma process_dequeued_cookie:
  assumes "fst (skb_data_offset env skb s) = Inr (offset, len)"
    and "o_message_type env skb offset len = MESSAGE_HANDSHAKE_COOKIE"
  shows "trace (device_of (process_dequeued env skb s)) =
           trace s @ [E_log LOG_RECEIVING_COOKIE, E_cookie_message_consume skb offset,
                      E_dev_kfree_skb skb]"
proof -
  from skb_data_offset_ok [OF assms(1)]
  have "skb_data_offset env skb s = (Inr (offset, len), s)" by blast
  with assms(2) show ?thesis
    by (simp add: process_dequeued_def receive_handshake_packet_def
          cookie_message_consume_def net_dbg_ratelimited_def dev_kfree_skb_def emit_def)
qed

text \<open>
  Claim C10. The worker runs the outer-frame parser again on every buffer it
  dequeues: in any iteration, with the buffer \<open>skb\<close> at the head of the queue,
  what the worker does is decided by the parse of \<open>skb\<close>. When the parse fails,
  the worker only takes the buffer off the queue and frees it, with the parser's
  log messages in the trace, and goes on with the next iteration (or signals
  itself again after the burst): no cookie check, no handshake consumption and no
  counter update for that buffer. When the parse succeeds with \<open>(offset, len)\<close>,
  the offset is 8 bytes behind the UDP header, the 4 bytes of the message header
  at that offset have been pulled, and the worker calls the handler with exactly
  that offset and length on the device after the dequeue, frees the buffer and
  goes on; the first call of the handler, to the cookie consumer or the cookie
  checker, carries that buffer and offset. Over the whole run every payload
  that reaches the cookie checker, the cookie consumer, the cookie sender or a
  noise consumer lies 8 bytes behind the UDP header of its buffer with the message
  header pulled. The entry point is the loop with \<open>num_processed = 0\<close>.
\<close>

theorem worker_reparses_every_buffer:
  "(incoming_handshakes s = skb # rest \<and> fst (skb_data_offset env skb s) = Inl EINVAL \<longrightarrow>
      (\<exists>msgs. worker_loop env n s =
         (let s1 = s\<lparr>incoming_handshakes := rest,
                     trace := trace s @ map E_log msgs @ [E_dev_kfree_skb skb]\<rparr>
          in if Suc n = MAX_BURST_HANDSHAKES then Inr (queue_work s1)
             else worker_loop env (Suc n) s1)))
   \<and> (incoming_handshakes s = skb # rest \<and>
        fst (skb_data_offset env skb s) = Inr (offset, len) \<longrightarrow>
        offset = udp_hdr_offset skb + 8 \<and>
        o_pskb_may_pull env skb (offset + 4) \<and>
        worker_loop env n s =
          (case receive_handshake_packet env skb offset len (s\<lparr>incoming_handshakes := rest\<rparr>) of
             Inl f \<Rightarrow> Inl f
           | Inr s2 \<Rightarrow>
               if Suc n = MAX_BURST_HANDSHAKES then Inr (queue_work (dev_kfree_skb skb s2))
               else worker_loop env (Suc n) (dev_kfree_skb skb s2)) \<and>
        (\<exists>evs. trace (device_of (worker_loop env n s)) =
           trace s @
           (if o_message_type env skb offset len = MESSAGE_HANDSHAKE_COOKIE
            then [E_log LOG_RECEIVING_COOKIE, E_cookie_message_consume skb offset]
            else [E_cookie_validate_packet skb offset len
                    (MAX_QUEUED_HANDSHAKES div 2 \<le> length rest)]) @ evs))
   \<and> (\<exists>evs. trace (device_of (worker_loop env n s)) = trace s @ evs
          \<and> list_all (header_pulled env) evs)
   \<and> packet_process_queued_handshake_packets env s = worker_loop env 0 s"
proof (intro conjI impI)
  let ?s0 = "s\<lparr>incoming_handshakes := rest\<rparr>"
  assume a: "incoming_handshakes s = skb # rest \<and> fst (skb_data_offset env skb s) = Inl EINVAL"
  then have f: "fst (skb_data_offset env skb ?s0) = Inl EINVAL"
    using skb_data_offset_fst [of env skb ?s0 s] by simp
  then obtain msgs where
    m: "snd (skb_data_offset env skb ?s0) = ?s0\<lparr>trace := trace ?s0 @ map E_log msgs\<rparr>"
    using skb_data_offset_fail by blast
  with f have "process_dequeued env skb ?s0 =
      Inr (s\<lparr>incoming_handshakes := rest,
              trace := trace s @ map E_log msgs @ [E_dev_kfree_skb skb]\<rparr>)"
    by (cases "skb_data_offset env skb ?s0")
       (simp add: process_dequeued_def dev_kfree_skb_def emit_def)
  with a have "worker_loop env n s =
         (let s1 = s\<lparr>incoming_handshakes := rest,
                     trace := trace s @ map E_log msgs @ [E_dev_kfree_skb skb]\<rparr>
          in if Suc n = MAX_BURST_HANDSHAKES then Inr (queue_work s1)
             else worker_loop env (Suc n) s1)"
    by (simp add: worker_loop.simps [of env n s] Let_def)
  then show "\<exists>msgs. worker_loop env n s =
         (let s1 = s\<lparr>incoming_handshakes := rest,
                     trace := trace s @ map E_log msgs @ [E_dev_kfree_skb skb]\<rparr>
          in if Suc n = MAX_BURST_HANDSHAKES then Inr (queue_work s1)
             else worker_loop env (Suc n) s1)" ..
next
  let ?s0 = "s\<lparr>incoming_handshakes := rest\<rparr>"
  assume a: "incoming_handshakes s = skb # rest \<and>
             fst (skb_data_offset env skb s) = Inr (offset, len)"
  then have f: "fst (skb_data_offset env skb ?s0) = Inr (offset, len)"
    using skb_data_offset_fst [of env skb ?s0 s] by simp
  from skb_data_offset_ok [OF f]
  have ok: "skb_data_offset env skb ?s0 = (Inr (offset, len), ?s0)"
    and off: "offset = udp_hdr_offset skb + sizeof_udphdr"
    and pull: "o_pskb_may_pull env skb (offset + sizeof_message_header)"
    by blast+
  from off show "offset = udp_hdr_offset skb + 8" by (simp add: size_defs)
  from pull show "o_pskb_may_pull env skb (offset + 4)" by (simp add: size_defs)
  from a ok show "worker_loop env n s =
          (case receive_handshake_packet env skb offset len ?s0 of
             Inl f \<Rightarrow> Inl f
           | Inr s2 \<Rightarrow>
               if Suc n = MAX_BURST_HANDSHAKES then Inr (queue_work (dev_kfree_skb skb s2))
               else worker_loop env (Suc n) (dev_kfree_skb skb s2))"
    by (simp add: worker_loop.simps [of env n s] process_dequeued_def split: sum.splits)
  from a worker_loop_head [of s skb rest env n]
  obtain more where more: "trace (device_of (worker_loop env n s)) =
      trace (device_of (process_dequeued env skb ?s0)) @ more"
    by blast
  show "\<exists>evs. trace (device_of (worker_loop env n s)) =
           trace s @
           (if o_message_type env skb offset len = MESSAGE_HANDSHAKE_COOKIE
            then [E_log LOG_RECEIVING_COOKIE, E_cookie_message_consume skb offset]
            else [E_cookie_validate_packet skb offset len
                    (MAX_QUEUED_HANDSHAKES div 2 \<le> length rest)]) @ evs"
  proof (cases "o_message_type env skb offset len = MESSAGE_HANDSHAKE_COOKIE")
    case True
    from process_dequeued_cookie [OF f True] more True show ?thesis by simp
  next
    case False
    from process_dequeued_first [OF f False]
    obtain evs where "trace (device_of (process_dequeued env skb ?s0)) =
        trace s @ E_cookie_validate_packet skb offset len
                    (MAX_QUEUED_HANDSHAKES div 2 \<le> length rest) # evs"
      by auto
    with more False show ?thesis by simp
  qed
next
  have "grows (header_pulled env) s (device_of (worker_loop env n s))"
    by (rule worker_loop_grows) (simp_all add: header_pulled_def)
  then show "\<exists>evs. trace (device_of (worker_loop env n s)) = trace s @ evs
          \<and> list_all (header_pulled env) evs"
    by (simp add: grows_def)
next
  show "packet_process_queued_handshake_packets env s = worker_loop env 0 s"
    by (simp add: packet_process_queued_handshake_packets_def)
qed

text \<open>
  A queue that holds one datagram whose UDP length field is 7: the worker only
  logs and frees it and goes into the next iteration. A queue that holds one
  cookie reply: the worker hands it to the cookie consumer at offset 8.
\<close>

theorem worker_reparses_every_buffer_witness:
  "(\<exists>msgs. worker_loop (sample_env MESSAGE_HANDSHAKE_INITIATION VALID_MAC_BUT_NO_COOKIE None) 0
             (idle_device\<lparr>incoming_handshakes := [sample_skb\<lparr>udp_len := 7\<rparr>]\<rparr>) =
           worker_loop (sample_env MESSAGE_HANDSHAKE_INITIATION VALID_MAC_BUT_NO_COOKIE None) (Suc 0)
             (idle_device\<lparr>trace := map E_log msgs @ [E_dev_kfree_skb (sample_skb\<lparr>udp_len := 7\<rparr>)]\<rparr>))
   \<and> (\<exists>evs. trace (device_of (worker_loop
              (sample_env MESSAGE_HANDSHAKE_COOKIE VALID_MAC_BUT_NO_COOKIE None) 0
              (idle_device\<lparr>incoming_handshakes := [sample_skb]\<rparr>))) =
         E_log LOG_RECEIVING_COOKIE # E_cookie_message_consume sample_skb 8 # evs)"
proof -
  let ?bad = "sample_skb\<lparr>udp_len := 7\<rparr>"
  let ?e1 = "sample_env MESSAGE_HANDSHAKE_INITIATION VALID_MAC_BUT_NO_COOKIE None"
  let ?e2 = "sample_env MESSAGE_HANDSHAKE_COOKIE VALID_MAC_BUT_NO_COOKIE None"
  let ?s1 = "idle_device\<lparr>incoming_handshakes := [?bad]\<rparr>"
  let ?s2 = "idle_device\<lparr>incoming_handshakes := [sample_skb]\<rparr>"
  have h1: "incoming_handshakes ?s1 = ?bad # [] \<and> fst (skb_data_offset ?e1 ?bad ?s1) = Inl EINVAL"
    by (simp add: skb_data_offset_def Let_def size_defs sample_env_sel sample_skb_def)
  have h2: "incoming_handshakes ?s2 = sample_skb # [] \<and>
            fst (skb_data_offset ?e2 sample_skb ?s2) = Inr (8, 148)"
    by (simp add: sample_parse)
  from worker_reparses_every_buffer [of ?s1 ?bad "[]" ?e1 0 0 0] h1
  have "\<exists>msgs. worker_loop ?e1 0 ?s1 =
         (let s1 = ?s1\<lparr>incoming_handshakes := [],
                     trace := trace ?s1 @ map E_log msgs @ [E_dev_kfree_skb ?bad]\<rparr>
          in if Suc 0 = MAX_BURST_HANDSHAKES then Inr (queue_work s1)
             else worker_loop ?e1 (Suc 0) s1)"
    by blast
  then have c1: "\<exists>msgs. worker_loop ?e1 0 ?s1 =
           worker_loop ?e1 (Suc 0)
             (idle_device\<lparr>trace := map E_log msgs @ [E_dev_kfree_skb ?bad]\<rparr>)"
    by (simp add: MAX_BURST_HANDSHAKES_def idle_device_def)
  from worker_reparses_every_buffer [of ?s2 sample_skb "[]" ?e2 0 8 148] h2
  have "\<exists>evs. trace (device_of (worker_loop ?e2 0 ?s2)) =
           trace ?s2 @
           (if o_message_type ?e2 sample_skb 8 148 = MESSAGE_HANDSHAKE_COOKIE
            then [E_log LOG_RECEIVING_COOKIE, E_cookie_message_consume sample_skb 8]
            else [E_cookie_validate_packet sample_skb 8 148
                    (MAX_QUEUED_HANDSHAKES div 2 \<le> length ([] :: sk_buff list))]) @ evs"
    by blast
  then have c2: "\<exists>evs. trace (device_of (worker_loop ?e2 0 ?s2)) =
         E_log LOG_RECEIVING_COOKIE # E_cookie_message_consume sample_skb 8 # evs"
    by (simp add: sample_env_sel idle_device_def)
  from c1 c2 show ?thesis by blast
qed

subsection \<open>The admission queue\<close>

text \<open>
  Claim C2. The claim is that the queue never holds more than
  \<^verbatim>\<open>MAX_QUEUED_HANDSHAKES\<close> buffers because the entry point enqueues only below the
  capacity. The entry point refuses a handshake only when the queue is longer than
  \<^verbatim>\<open>MAX_QUEUED_HANDSHAKES\<close>: with exactly 4096 buffers queued it enqueues one more,
  and the queue holds 4097.
\<close>

theorem queue_exceeds_capacity:
  "MAX_QUEUED_HANDSHAKES = 4096
   \<and> incoming_handshakes
       (packet_receive (sample_env MESSAGE_HANDSHAKE_INITIATION VALID_MAC_BUT_NO_COOKIE None)
          sample_skb (idle_device\<lparr>incoming_handshakes := replicate 4096 sample_skb\<rparr>))
     = replicate 4096 sample_skb @ [sample_skb]
   \<and> length (incoming_handshakes
       (packet_receive (sample_env MESSAGE_HANDSHAKE_INITIATION VALID_MAC_BUT_NO_COOKIE None)
          sample_skb (idle_device\<lparr>incoming_handshakes := replicate 4096 sample_skb\<rparr>)))
     = 4097"
  by (simp add: packet_receive_def sample_parse enqueue_handshake_def skb_queue_len_def
        skb_queue_tail_def queue_work_def emit_def MAX_QUEUED_HANDSHAKES_def
        sample_env_sel idle_device_def)

text \<open>The bound that the guard of the entry point keeps, one call after the other.\<close>

lemma packet_receive_queue_bound:
  "length (incoming_handshakes s) \<le> MAX_QUEUED_HANDSHAKES + 1 \<Longrightarrow>
   length (incoming_handshakes (packet_receive env skb s)) \<le> MAX_QUEUED_HANDSHAKES + 1"
  using skb_data_offset_queue [of env skb s]
  by (auto simp: packet_receive_def enqueue_handshake_def skb_queue_len_def
        skb_queue_tail_def queue_work_def emit_def dev_kfree_skb_def net_dbg_ratelimited_def
        packet_consume_data_def
      split: prod.splits sum.splits message_type.splits option.splits)

subsection \<open>The completion callback of the decryption\<close>

lemmas data_defs = receive_data_packet_def route_and_deliver_def packet_processed_def
  continue_processing_def count_length_error_def count_frame_error_def

lemma freed_append: "freed (xs @ ys) = freed xs @ freed ys"
  by (simp add: freed_def)

lemma delivered_append: "delivered (xs @ ys) = delivered xs @ delivered ys"
  by (simp add: delivered_def)

lemma freed_Cons: "freed (e # xs) = freed_of e @ freed xs"
  by (simp add: freed_def)

lemma delivered_Cons: "delivered (e # xs) = delivered_of e @ delivered xs"
  by (simp add: delivered_def)

lemma freed_Nil: "freed [] = []" by (simp add: freed_def)
lemma delivered_Nil: "delivered [] = []" by (simp add: delivered_def)

lemmas buffer_simps = freed_append delivered_append freed_Cons delivered_Cons freed_Nil delivered_Nil

lemma route_and_deliver_refcount:
  "refcount (route_and_deliver env b p a s) = (refcount s)(p := refcount s p - 1)"
  by (auto simp: data_defs call_defs Let_def fun_eq_iff split: option.splits bool.splits)

lemma route_and_deliver_buffer:
  "(freed (trace (route_and_deliver env b p a s)) = freed (trace s) @ [skb_id b] \<and>
    delivered (trace (route_and_deliver env b p a s)) = delivered (trace s)) \<or>
   (freed (trace (route_and_deliver env b p a s)) = freed (trace s) \<and>
    delivered (trace (route_and_deliver env b p a s)) = delivered (trace s) @ [skb_id b])"
  by (auto simp: data_defs call_defs Let_def buffer_simps split: option.splits bool.splits)

lemma route_and_deliver_last:
  "last (trace (route_and_deliver env b p a s)) = E_peer_put (Some p)"
  by (auto simp: data_defs call_defs Let_def split: option.splits bool.splits)

lemma reaches_routing_check_body:
  assumes "0 \<le> err" and "reaches_routing_check env skb"
  shows "receive_data_packet env skb (Some p) (Some a) used_new_key err s =
           route_and_deliver env (inner_skb skb) p a
             (if used_new_key then packet_send_queue p s else s)"
  using assms
  by (auto simp: receive_data_packet_def reaches_routing_check_def inner_skb_def Let_def
        size_defs)

lemma route_and_deliver_trace:
  "\<exists>post. trace (route_and_deliver env b p a s) =
            trace s @ [E_timers_data_received p] @
              [E_routing_table_lookup_src b, E_peer_put (o_lookup_src env b)] @ post
          \<and> filter is_lookup post = []
          \<and> filter is_peer_put post = [E_peer_put (Some p)]"
  by (auto simp: data_defs call_defs Let_def split: option.splits bool.splits)

text \<open>
  Claim C3, as amended. When the callback is entered with \<open>err < 0\<close>, with no peer or
  with no address, it frees the buffer and returns, and releases no peer reference:
  the device only gains the release of the buffer in its trace. On every other
  entry the reference that the decryption took on the authenticated peer is
  released exactly once: the count of that peer ends one lower and no other count
  changes (the reference that the routing lookup takes is given back in between),
  and the last call is \<^verbatim>\<open>peer_put\<close> on the authenticated peer. On those entries the
  buffer is either freed or handed to the network stack, one of the two and once.
\<close>

theorem data_packet_reference_and_buffer:
  "(err < 0 \<or> peer = None \<or> addr = None \<longrightarrow>
      receive_data_packet env skb peer addr used_new_key err s =
        s\<lparr>trace := trace s @ [E_dev_kfree_skb skb]\<rparr>)
   \<and> (0 \<le> err \<and> peer = Some p \<and> addr = Some a \<longrightarrow>
        (let s' = receive_data_packet env skb peer addr used_new_key err s in
         refcount s' = (refcount s)(p := refcount s p - 1) \<and>
         last (trace s') = E_peer_put (Some p) \<and>
         ((freed (trace s') = freed (trace s) @ [skb_id skb] \<and>
           delivered (trace s') = delivered (trace s)) \<or>
          (freed (trace s') = freed (trace s) \<and>
           delivered (trace s') = delivered (trace s) @ [skb_id skb]))))"
proof (intro conjI impI)
  assume "err < 0 \<or> peer = None \<or> addr = None"
  then show "receive_data_packet env skb peer addr used_new_key err s =
        s\<lparr>trace := trace s @ [E_dev_kfree_skb skb]\<rparr>"
    by (auto simp: receive_data_packet_def dev_kfree_skb_def emit_def split: option.splits)
next
  assume h: "0 \<le> err \<and> peer = Some p \<and> addr = Some a"
  define Q where "Q t s' \<longleftrightarrow>
         refcount s' = (refcount t)(p := refcount t p - 1) \<and>
         last (trace s') = E_peer_put (Some p) \<and>
         ((freed (trace s') = freed (trace t) @ [skb_id skb] \<and>
           delivered (trace s') = delivered (trace t)) \<or>
          (freed (trace s') = freed (trace t) \<and>
           delivered (trace s') = delivered (trace t) @ [skb_id skb]))"
    for t s' :: wg_device
  let ?s1 = "if used_new_key then packet_send_queue p s else s"
  have pp: "Q t (packet_processed b p a (net_dbg_ratelimited m t))"
    if "skb_id b = skb_id skb" for b m t
    using that by (simp add: Q_def data_defs call_defs buffer_simps)
  have pe: "Q t (packet_processed b p a (net_dbg_ratelimited m (count_length_error t)))"
    if "skb_id b = skb_id skb" for b m t
    using that by (simp add: Q_def data_defs call_defs buffer_simps)
  have rd: "Q t (route_and_deliver env b p a t)" if "skb_id b = skb_id skb" for b t
    using that route_and_deliver_buffer [of env b p a t]
    by (simp add: Q_def route_and_deliver_refcount route_and_deliver_last)
  have "Q ?s1 (receive_data_packet env skb (Some p) (Some a) used_new_key err s)"
    using h by (simp add: receive_data_packet_def Let_def pp pe rd)
  moreover have "refcount ?s1 = refcount s" "freed (trace ?s1) = freed (trace s)"
    "delivered (trace ?s1) = delivered (trace s)"
    by (simp_all add: packet_send_queue_def emit_def buffer_simps)
  ultimately have "Q s (receive_data_packet env skb (Some p) (Some a) used_new_key err s)"
    unfolding Q_def by simp
  with h show "let s' = receive_data_packet env skb peer addr used_new_key err s in
         refcount s' = (refcount s)(p := refcount s p - 1) \<and>
         last (trace s') = E_peer_put (Some p) \<and>
         ((freed (trace s') = freed (trace s) @ [skb_id skb] \<and>
           delivered (trace s') = delivered (trace s)) \<or>
          (freed (trace s') = freed (trace s) \<and>
           delivered (trace s') = delivered (trace s) @ [skb_id skb]))"
    by (simp add: Q_def Let_def)
qed

text \<open>
  A failed decryption only frees the buffer; a good inner packet from peer 5, routed
  to peer 5, leaves the count of peer 5 one lower.
\<close>

theorem data_packet_reference_and_buffer_witness:
  "receive_data_packet (sample_env MESSAGE_DATA VALID_MAC_BUT_NO_COOKIE (Some 5))
      sample_inner None None False (- 1) idle_device
     = idle_device\<lparr>trace := [E_dev_kfree_skb sample_inner]\<rparr>
   \<and> refcount (receive_data_packet (sample_env MESSAGE_DATA VALID_MAC_BUT_NO_COOKIE (Some 5))
        sample_inner (Some 5) (Some 9) False 0 idle_device) = (\<lambda>p. 1)(5 := 0)"
  using data_packet_reference_and_buffer
          [of "- 1" None None "sample_env MESSAGE_DATA VALID_MAC_BUT_NO_COOKIE (Some 5)"
              sample_inner False idle_device]
        data_packet_reference_and_buffer
          [of 0 "Some 5" "Some 9" "sample_env MESSAGE_DATA VALID_MAC_BUT_NO_COOKIE (Some 5)"
              sample_inner False idle_device 5 9]
  by (simp add: idle_device_def Let_def)

text \<open>
  The early return with \<open>err = -1\<close> and the peer 5 given: the buffer is freed, the
  count of peer 5 stays and \<^verbatim>\<open>peer_put\<close> is not called at all.
\<close>

theorem data_packet_reference_counterexample:
  "receive_data_packet (sample_env MESSAGE_DATA VALID_MAC_BUT_NO_COOKIE (Some 5))
      sample_inner (Some 5) (Some 9) False (- 1) idle_device
     = idle_device\<lparr>trace := [E_dev_kfree_skb sample_inner]\<rparr>
   \<and> refcount (receive_data_packet (sample_env MESSAGE_DATA VALID_MAC_BUT_NO_COOKIE (Some 5))
        sample_inner (Some 5) (Some 9) False (- 1) idle_device) 5 = refcount idle_device 5
   \<and> filter is_peer_put (trace (receive_data_packet
        (sample_env MESSAGE_DATA VALID_MAC_BUT_NO_COOKIE (Some 5))
        sample_inner (Some 5) (Some 9) False (- 1) idle_device)) = []"
  by (simp add: receive_data_packet_def dev_kfree_skb_def emit_def idle_device_def)

text \<open>
  Claim C4, as amended. For a decrypted packet of length 0 (a keep-alive) with
  \<open>err \<ge> 0\<close>, a peer and an address, the callback flushes the send queue if a new key
  was used, logs the keep-alive, frees the buffer, calls
  \<^verbatim>\<open>timers_any_authorized_packet_received\<close>, sets the address of the peer and releases
  the reference of the peer, and does nothing else: it does not call
  \<^verbatim>\<open>timers_data_received\<close>, does not hand the buffer to the network stack and does
  not touch \<^verbatim>\<open>rx_packets\<close> or any other counter.
\<close>

theorem keepalive_processing:
  assumes "0 \<le> err" and "skb_len skb = 0"
  shows "receive_data_packet env skb (Some p) (Some a) used_new_key err s =
     s\<lparr>trace := trace s @ (if used_new_key then [E_packet_send_queue p] else []) @
          [E_log LOG_KEEPALIVE, E_dev_kfree_skb skb,
           E_timers_any_authorized_packet_received p, E_socket_set_peer_addr p a,
           E_peer_put (Some p)],
        refcount := (refcount s)(p := refcount s p - 1)\<rparr>"
  using assms by (simp add: data_defs call_defs)

text \<open>The sample keep-alive from peer 5 on the idle device.\<close>

theorem keepalive_processing_witness:
  "receive_data_packet (sample_env MESSAGE_DATA VALID_MAC_BUT_NO_COOKIE (Some 5))
      sample_keepalive (Some 5) (Some 9) False 0 idle_device =
     idle_device\<lparr>trace := [E_log LOG_KEEPALIVE, E_dev_kfree_skb sample_keepalive,
           E_timers_any_authorized_packet_received 5, E_socket_set_peer_addr 5 9,
           E_peer_put (Some 5)],
        refcount := (\<lambda>p. 1)(5 := 0)\<rparr>"
  using keepalive_processing [of 0 sample_keepalive "sample_env MESSAGE_DATA VALID_MAC_BUT_NO_COOKIE (Some 5)" 5 9 False idle_device]
  by (simp add: sample_keepalive_def idle_device_def)

text \<open>For the sample keep-alive \<^verbatim>\<open>timers_data_received\<close> is not among the calls.\<close>

theorem keepalive_counterexample:
  "skb_len sample_keepalive = 0
   \<and> E_timers_data_received 5 \<notin> set (trace (receive_data_packet
        (sample_env MESSAGE_DATA VALID_MAC_BUT_NO_COOKIE (Some 5))
        sample_keepalive (Some 5) (Some 9) False 0 idle_device))"
  by (simp add: data_defs call_defs sample_keepalive_def idle_device_def)

text \<open>
  Claim C6. A decrypted packet that gets as far as the routing check (it is not a
  keep-alive, holds an IPv4 or IPv6 header and so an inner source address) and
  whose source address the routing table does not resolve to the authenticated
  peer is not handed to the network stack: the buffer is freed, \<^verbatim>\<open>rx_errors\<close> and
  \<^verbatim>\<open>rx_frame_errors\<close> go up by one each, and no other counter moves.
\<close>

theorem unallowed_source_not_delivered:
  assumes "0 \<le> err" and "reaches_routing_check env skb"
    and "o_lookup_src env (inner_skb skb) \<noteq> Some p"
  shows "let s' = receive_data_packet env skb (Some p) (Some a) used_new_key err s in
           delivered (trace s') = delivered (trace s) \<and>
           freed (trace s') = freed (trace s) @ [skb_id skb] \<and>
           rx_errors s' = rx_errors s + 1 \<and>
           rx_frame_errors s' = rx_frame_errors s + 1 \<and>
           rx_length_errors s' = rx_length_errors s \<and>
           rx_dropped s' = rx_dropped s \<and>
           tstats_rx_packets s' = tstats_rx_packets s \<and>
           tstats_rx_bytes s' = tstats_rx_bytes s \<and>
           peer_rx_bytes s' = peer_rx_bytes s"
  using assms(3)
  by (simp add: reaches_routing_check_body [OF assms(1,2)] Let_def)
     (simp add: route_and_deliver_def packet_processed_def continue_processing_def
        count_frame_error_def call_defs buffer_simps inner_skb_def Let_def
      split: option.splits)

text \<open>The sample inner packet from peer 5 with a source address that belongs to peer 6.\<close>

theorem unallowed_source_not_delivered_witness:
  "(let s' = receive_data_packet (sample_env MESSAGE_DATA VALID_MAC_BUT_NO_COOKIE (Some 6))
               sample_inner (Some 5) (Some 9) False 0 idle_device in
           delivered (trace s') = [] \<and>
           freed (trace s') = [2] \<and>
           rx_errors s' = 1 \<and>
           rx_frame_errors s' = 1 \<and>
           rx_length_errors s' = 0 \<and>
           rx_dropped s' = 0 \<and>
           tstats_rx_packets s' = 0 \<and>
           tstats_rx_bytes s' = 0 \<and>
           peer_rx_bytes s' = (\<lambda>p. 0))"
  using unallowed_source_not_delivered
          [of 0 "sample_env MESSAGE_DATA VALID_MAC_BUT_NO_COOKIE (Some 6)" sample_inner 5 9
              False idle_device]
  by (simp add: reaches_routing_check_def sample_env_sel sample_inner_def idle_device_def
        buffer_simps Let_def)

text \<open>
  Claim C9. For a packet that reaches the routing check the callback looks the
  source up once, and the next call is \<^verbatim>\<open>peer_put\<close> on what the lookup returned,
  whether that is NULL, the authenticated peer or another peer. The only other
  \<^verbatim>\<open>peer_put\<close> of the call is the one on the authenticated peer. The lookup and the
  release together leave every reference count as it was, so the count of the
  authenticated peer ends one lower, by the release of its own reference alone.
\<close>

theorem routed_peer_released_at_once:
  assumes "0 \<le> err" and "reaches_routing_check env skb"
  shows "(\<exists>pre post.
            trace (receive_data_packet env skb (Some p) (Some a) used_new_key err s) =
              trace s @ pre @
                [E_routing_table_lookup_src (inner_skb skb),
                 E_peer_put (o_lookup_src env (inner_skb skb))] @ post
            \<and> filter is_lookup (pre @ post) = []
            \<and> filter is_peer_put (pre @ post) = [E_peer_put (Some p)])
         \<and> refcount (peer_put (fst (routing_table_lookup_src env (inner_skb skb) s0))
                      (snd (routing_table_lookup_src env (inner_skb skb) s0))) = refcount s0
         \<and> refcount (receive_data_packet env skb (Some p) (Some a) used_new_key err s) =
             (refcount s)(p := refcount s p - 1)"
proof (intro conjI)
  let ?s1 = "if used_new_key then packet_send_queue p s else s"
  let ?b = "inner_skb skb"
  from route_and_deliver_trace [of env ?b p a ?s1]
  obtain post where post: "trace (route_and_deliver env ?b p a ?s1) =
            trace ?s1 @ [E_timers_data_received p] @
              [E_routing_table_lookup_src ?b, E_peer_put (o_lookup_src env ?b)] @ post"
    and nl: "filter is_lookup post = []"
    and np: "filter is_peer_put post = [E_peer_put (Some p)]"
    by blast
  let ?pre = "(if used_new_key then [E_packet_send_queue p] else []) @ [E_timers_data_received p]"
  have "trace (receive_data_packet env skb (Some p) (Some a) used_new_key err s) =
              trace s @ ?pre @ [E_routing_table_lookup_src ?b, E_peer_put (o_lookup_src env ?b)] @ post"
    using post by (simp add: reaches_routing_check_body [OF assms] packet_send_queue_def emit_def)
  moreover have "filter is_lookup (?pre @ post) = []" using nl by simp
  moreover have "filter is_peer_put (?pre @ post) = [E_peer_put (Some p)]" using np by simp
  ultimately show "\<exists>pre post.
            trace (receive_data_packet env skb (Some p) (Some a) used_new_key err s) =
              trace s @ pre @
                [E_routing_table_lookup_src (inner_skb skb),
                 E_peer_put (o_lookup_src env (inner_skb skb))] @ post
            \<and> filter is_lookup (pre @ post) = []
            \<and> filter is_peer_put (pre @ post) = [E_peer_put (Some p)]"
    by blast
next
  show "refcount (peer_put (fst (routing_table_lookup_src env (inner_skb skb) s0))
                      (snd (routing_table_lookup_src env (inner_skb skb) s0))) = refcount s0"
    by (simp add: routing_table_lookup_src_def peer_put_def take_ref_def emit_def fun_eq_iff
          split: option.splits)
next
  show "refcount (receive_data_packet env skb (Some p) (Some a) used_new_key err s) =
             (refcount s)(p := refcount s p - 1)"
    by (simp add: reaches_routing_check_body [OF assms] route_and_deliver_refcount
          packet_send_queue_def emit_def)
qed

text \<open>The sample inner packet from peer 5, routed to peer 5 and delivered.\<close>

theorem routed_peer_released_at_once_witness:
  "trace (receive_data_packet (sample_env MESSAGE_DATA VALID_MAC_BUT_NO_COOKIE (Some 5))
            sample_inner (Some 5) (Some 9) False 0 idle_device) =
     [E_timers_data_received 5,
      E_routing_table_lookup_src (inner_skb sample_inner), E_peer_put (Some 5),
      E_set_last_rx, E_netif_rx (inner_skb sample_inner),
      E_timers_any_authorized_packet_received 5, E_socket_set_peer_addr 5 9,
      E_peer_put (Some 5)]
   \<and> refcount (receive_data_packet (sample_env MESSAGE_DATA VALID_MAC_BUT_NO_COOKIE (Some 5))
            sample_inner (Some 5) (Some 9) False 0 idle_device) = (\<lambda>p. 1)(5 := 0)"
proof -
  have r: "reaches_routing_check (sample_env MESSAGE_DATA VALID_MAC_BUT_NO_COOKIE (Some 5)) sample_inner"
    by (simp add: reaches_routing_check_def sample_env_sel sample_inner_def)
  have "trace (receive_data_packet (sample_env MESSAGE_DATA VALID_MAC_BUT_NO_COOKIE (Some 5))
            sample_inner (Some 5) (Some 9) False 0 idle_device) =
     [E_timers_data_received 5,
      E_routing_table_lookup_src (inner_skb sample_inner), E_peer_put (Some 5),
      E_set_last_rx, E_netif_rx (inner_skb sample_inner),
      E_timers_any_authorized_packet_received 5, E_socket_set_peer_addr 5 9,
      E_peer_put (Some 5)]"
    by (simp add: reaches_routing_check_body [of 0, OF _ r] route_and_deliver_def
          packet_processed_def continue_processing_def call_defs sample_env_sel
          idle_device_def)
  then show ?thesis
    using routed_peer_released_at_once [of 0 "sample_env MESSAGE_DATA VALID_MAC_BUT_NO_COOKIE (Some 5)"
      sample_inner 5 9 False idle_device idle_device, OF _ r]
    by (simp add: idle_device_def)
qed

end
